theory Spec2Isabelle
  imports Complex_Main
begin

section \<open>Python values\<close>

text \<open>
  The option classes store and exchange dynamically typed Python values. A value is
  \<open>None\<close>, a bool, an int, a float or Decimal (carried as the rational it denotes), a
  string, a list, a dict (an association list, in insertion order) or an instance of one
  of the library's classes (\<open>PObj\<close>: the class name and the instance's attributes).
  Strings are lists of ASCII characters.
\<close>

datatype pyval =
    PNone
  | PBool bool
  | PInt int
  | PFloat rat
  | PStr string
  | PList "pyval list"
  | PDict "(string \<times> pyval) list"
  | PObj string "(string \<times> pyval) list"

type_synonym pydict = "(string \<times> pyval) list"

text \<open>
  The exceptions that the modelled code raises or lets through. \<open>HighchartsValueError\<close>
  is the library's own error; the others are those of the validator package and of
  Python itself.
\<close>

datatype error =
    HighchartsValueError
  | EmptyValueError
  | CannotCoerceError
  | MinimumValueError
  | MaximumValueError
  | NotAnIterableError
  | ValueError
  | JSONDecodeError
  | TypeError
  | AttributeError

text \<open>
  \<open>except ValueError\<close> catches \<open>ValueError\<close> and its subclasses. The library's error
  and the validator package's empty-value and bound errors derive from \<open>ValueError\<close>,
  as does the decode error of Python's \<open>json\<close> module; the package's coercion errors
  derive from \<open>TypeError\<close>.
\<close>

fun is_ValueError :: "error \<Rightarrow> bool" where
  "is_ValueError HighchartsValueError = True"
| "is_ValueError EmptyValueError = True"
| "is_ValueError MinimumValueError = True"
| "is_ValueError MaximumValueError = True"
| "is_ValueError ValueError = True"
| "is_ValueError JSONDecodeError = True"
| "is_ValueError CannotCoerceError = False"
| "is_ValueError NotAnIterableError = False"
| "is_ValueError TypeError = False"
| "is_ValueError AttributeError = False"

text \<open>
  Python truthiness, the test behind \<open>if not value\<close>: \<open>None\<close>, \<open>False\<close>, zero and
  the empty string, list and dict are falsy; an instance of a library class is truthy
  (the classes define neither \<open>__bool__\<close> nor \<open>__len__\<close>).
\<close>

fun truthy :: "pyval \<Rightarrow> bool" where
  "truthy PNone = False"
| "truthy (PBool b) = b"
| "truthy (PInt n) = (n \<noteq> 0)"
| "truthy (PFloat r) = (r \<noteq> 0)"
| "truthy (PStr s) = (s \<noteq> [])"
| "truthy (PList xs) = (xs \<noteq> [])"
| "truthy (PDict kvs) = (kvs \<noteq> [])"
| "truthy (PObj c a) = True"

text \<open>\<open>isinstance(value, (C1, C2, ...))\<close> for library classes.\<close>

fun isinstance :: "pyval \<Rightarrow> string list \<Rightarrow> bool" where
  "isinstance (PObj c a) cs = (c \<in> set cs)"
| "isinstance v cs = False"

fun is_dict :: "pyval \<Rightarrow> bool" where
  "is_dict (PDict kvs) = True"
| "is_dict v = False"

fun is_str :: "pyval \<Rightarrow> bool" where
  "is_str (PStr s) = True"
| "is_str v = False"

text \<open>Substring test on strings: \<open>sub in s\<close>.\<close>

fun starts_with :: "string \<Rightarrow> string \<Rightarrow> bool" where
  "starts_with [] s = True"
| "starts_with (c # cs) [] = False"
| "starts_with (c # cs) (d # ds) = (c = d \<and> starts_with cs ds)"

fun str_contains :: "string \<Rightarrow> string \<Rightarrow> bool" where
  "str_contains sub [] = (sub = [])"
| "str_contains sub (d # ds) = (starts_with sub (d # ds) \<or> str_contains sub ds)"

text \<open>
  \<open>isinstance(value, (dict, str)) and key in value\<close>: key membership on a dict,
  substring on a string. \<open>isinstance(value, dict) and key in value\<close> is \<open>dict_has\<close>.
\<close>

fun dict_or_str_has :: "string \<Rightarrow> pyval \<Rightarrow> bool" where
  "dict_or_str_has key (PDict kvs) = (key \<in> fst ` set kvs)"
| "dict_or_str_has key (PStr s) = str_contains key s"
| "dict_or_str_has key v = False"

fun dict_has :: "string \<Rightarrow> pyval \<Rightarrow> bool" where
  "dict_has key (PDict kvs) = (key \<in> fst ` set kvs)"
| "dict_has key v = False"

text \<open>\<open>d.pop(key, default)\<close> and \<open>d.get(key, default)\<close>, as far as the value read goes.\<close>

definition pop :: "pydict \<Rightarrow> string \<Rightarrow> pyval \<Rightarrow> pyval" where
  "pop d key dflt = (case map_of d key of Some v \<Rightarrow> v | None \<Rightarrow> dflt)"

text \<open>\<open>d[key] = v\<close>: overwrite in place, or append a new key.\<close>

fun dict_set :: "pydict \<Rightarrow> string \<Rightarrow> pyval \<Rightarrow> pydict" where
  "dict_set [] key v = [(key, v)]"
| "dict_set ((k, w) # kvs) key v =
     (if k = key then (k, v) # kvs else (k, w) # dict_set kvs key v)"

text \<open>\<open>str.lower()\<close> on ASCII text; on a value that is no string the call fails.\<close>

definition lower_char :: "char \<Rightarrow> char" where
  "lower_char c =
     (case map_of (zip ''ABCDEFGHIJKLMNOPQRSTUVWXYZ'' ''abcdefghijklmnopqrstuvwxyz'') c of
        Some d \<Rightarrow> d
      | None \<Rightarrow> c)"

definition lower :: "string \<Rightarrow> string" where
  "lower s = map lower_char s"

fun py_lower :: "pyval \<Rightarrow> error + pyval" where
  "py_lower (PStr s) = Inr (PStr (lower s))"
| "py_lower v = Inl AttributeError"

text \<open>
  The statement \<open>self._field = expr\<close>: when \<open>expr\<close> raises, the error propagates and
  the object is left as it was; otherwise the value is stored.
\<close>

definition assign :: "error + 'v \<Rightarrow> ('v \<Rightarrow> 'o) \<Rightarrow> error + 'o" where
  "assign r store = (case r of Inl e \<Rightarrow> Inl e | Inr v \<Rightarrow> Inr (store v))"

text \<open>A sequence of statements on \<open>self\<close>, stopping at the first one that raises.\<close>

fun run_setters :: "'o \<Rightarrow> ('o \<Rightarrow> error + 'o) list \<Rightarrow> error + 'o" where
  "run_setters self [] = Inr self"
| "run_setters self (f # fs) =
     (case f self of Inl e \<Rightarrow> Inl e | Inr self' \<Rightarrow> run_setters self' fs)"

section \<open>Collaborators outside the modelled modules\<close>

text \<open>
  The modules under study import \<open>Gradient\<close> and \<open>Pattern\<close>, the type-checking
  decorators and the nested option classes from modules that are not part of the
  modelled sources. What they compute is a parameter of the model:
  \<^item> \<open>Gradient_from_json\<close>, \<open>Gradient_from_dict\<close>, \<open>Gradient_init\<close> (the call
    \<open>Gradient(**value)\<close>) and the three for \<open>Pattern\<close> return the attributes of the
    new instance, or raise;
  \<^item> \<open>check_types\<close> is the part of \<open>validate_types\<close> and \<open>class_sensitive\<close> that
    handles a value other than \<open>None\<close>, for the given list of accepted classes;
  \<^item> \<open>float_of_str\<close> is Python's \<open>float(s)\<close> (\<open>None\<close> when it raises);
  \<^item> \<open>entity_to_dict\<close> is \<open>to_dict\<close> of an instance, given its class and attributes.
\<close>

record env =
  Gradient_from_json :: "pyval \<Rightarrow> error + pydict"
  Gradient_from_dict :: "pyval \<Rightarrow> error + pydict"
  Gradient_init :: "pyval \<Rightarrow> error + pydict"
  Pattern_from_json :: "pyval \<Rightarrow> error + pydict"
  Pattern_from_dict :: "pyval \<Rightarrow> error + pydict"
  Pattern_init :: "pyval \<Rightarrow> error + pydict"
  check_types :: "string list \<Rightarrow> pyval \<Rightarrow> error + pyval"
  float_of_str :: "string \<Rightarrow> rat option"
  entity_to_dict :: "string \<Rightarrow> pydict \<Rightarrow> pydict"

text \<open>The instance that a constructor of class \<open>c\<close> returns.\<close>

definition construct :: "string \<Rightarrow> error + pydict \<Rightarrow> error + pyval" where
  "construct c r = (case r of Inl e \<Rightarrow> Inl e | Inr a \<Rightarrow> Inr (PObj c a))"

text \<open>
  Modelled from the spec: \<open>validate_types\<close> and the \<open>class_sensitive\<close> decorator of
  \<open>highcharts.decorators\<close> are absent. Every attribute is independently nullable and
  none is required at construction (section 3), so \<open>None\<close> passes unless
  \<open>allow_none\<close> is false; any other value goes to the absent type check.
\<close>

definition validate_types :: "env \<Rightarrow> pyval \<Rightarrow> string list \<Rightarrow> bool \<Rightarrow> error + pyval" where
  "validate_types env value types allow_none =
     (if value = PNone then (if allow_none then Inr PNone else Inl HighchartsValueError)
      else check_types env types value)"

definition class_sensitive :: "env \<Rightarrow> string list \<Rightarrow> pyval \<Rightarrow> error + pyval" where
  "class_sensitive env types value = validate_types env value types True"

section \<open>Validators\<close>

text \<open>
  Modelled from the spec: \<open>validators.string\<close>, \<open>validators.numeric\<close> and
  \<open>validators.iterable\<close> belong to the external validator package, which is absent.
  Section 4.1: empty input returns \<open>None\<close> when \<open>allow_empty\<close> holds and fails
  otherwise; an out-of-bound number fails; the result is the validated value. A string
  is empty when it is falsy; a number is empty only when it is \<open>None\<close>; a numeric string
  is coerced to a float; a bool counts as a number; a string is not an iterable.
\<close>

definition validators_string :: "pyval \<Rightarrow> bool \<Rightarrow> error + pyval" where
  "validators_string value allow_empty =
     (if \<not> truthy value then (if allow_empty then Inr PNone else Inl EmptyValueError)
      else if is_str value then Inr value
      else Inl CannotCoerceError)"

definition check_bounds :: "rat \<Rightarrow> rat option \<Rightarrow> rat option \<Rightarrow> pyval \<Rightarrow> error + pyval" where
  "check_bounds r minimum maximum value =
     (if (case maximum of Some m \<Rightarrow> r > m | None \<Rightarrow> False) then Inl MaximumValueError
      else if (case minimum of Some m \<Rightarrow> r < m | None \<Rightarrow> False) then Inl MinimumValueError
      else Inr value)"

fun validators_numeric ::
  "env \<Rightarrow> pyval \<Rightarrow> bool \<Rightarrow> rat option \<Rightarrow> rat option \<Rightarrow> error + pyval" where
  "validators_numeric env PNone allow_empty minimum maximum =
     (if allow_empty then Inr PNone else Inl EmptyValueError)"
| "validators_numeric env (PStr s) allow_empty minimum maximum =
     (case float_of_str env s of
        None \<Rightarrow> Inl CannotCoerceError
      | Some r \<Rightarrow> check_bounds r minimum maximum (PFloat r))"
| "validators_numeric env (PInt n) allow_empty minimum maximum =
     check_bounds (of_int n) minimum maximum (PInt n)"
| "validators_numeric env (PFloat r) allow_empty minimum maximum =
     check_bounds r minimum maximum (PFloat r)"
| "validators_numeric env (PBool b) allow_empty minimum maximum =
     check_bounds (if b then 1 else 0) minimum maximum (PBool b)"
| "validators_numeric env v allow_empty minimum maximum = Inl CannotCoerceError"

fun validators_iterable :: "pyval \<Rightarrow> error + pyval" where
  "validators_iterable (PList xs) = (if xs = [] then Inl EmptyValueError else Inr (PList xs))"
| "validators_iterable (PDict kvs) = (if kvs = [] then Inl EmptyValueError else Inr (PDict kvs))"
| "validators_iterable v = (if \<not> truthy v then Inl EmptyValueError else Inl NotAnIterableError)"

text \<open>The items that \<open>for item in value\<close> visits.\<close>

fun py_iter :: "pyval \<Rightarrow> pyval list" where
  "py_iter (PList xs) = xs"
| "py_iter (PDict kvs) = map (\<lambda>kv. PStr (fst kv)) kvs"
| "py_iter (PStr s) = map (\<lambda>c. PStr [c]) s"
| "py_iter v = []"

section \<open>The color resolver\<close>

text \<open>
  The body shared, word for word up to the attribute name and the error message, by
  every color setter: \<open>Legend.background_color\<close>, \<open>Legend.border_color\<close>,
  \<open>Zone.color\<close>, \<open>Zone.fill_color\<close>, \<open>HeatmapOptions.null_color\<close>,
  \<open>TreemapOptions.negative_color\<close>, \<open>HoverState.border_color\<close>,
  \<open>SelectState.border_color\<close> and the first definitions of \<open>HoverState.color\<close> and
  \<open>SelectState.color\<close>. It yields the value to store, or raises.
\<close>

definition resolve_color :: "env \<Rightarrow> pyval \<Rightarrow> error + pyval" where
  "resolve_color env value =
     (if \<not> truthy value then Inr PNone
      else if isinstance value [''Gradient'', ''Pattern''] then Inr value
      else if dict_or_str_has ''linearGradient'' value then
        (case construct ''Gradient'' (Gradient_from_json env value) of
           Inr g \<Rightarrow> Inr g
         | Inl e \<Rightarrow>
             if is_ValueError e then
               (if is_dict value then construct ''Gradient'' (Gradient_from_dict env value)
                else validators_string value False)
             else Inl e)
      else if dict_has ''linear_gradient'' value then
        construct ''Gradient'' (Gradient_init env value)
      else if dict_or_str_has ''patternOptions'' value then
        (case construct ''Pattern'' (Pattern_from_json env value) of
           Inr p \<Rightarrow> Inr p
         | Inl e \<Rightarrow>
             if is_ValueError e then
               (if is_dict value then construct ''Pattern'' (Pattern_from_dict env value)
                else validators_string value False)
             else Inl e)
      else if dict_has ''pattern_options'' value then
        construct ''Pattern'' (Pattern_init env value)
      else Inl HighchartsValueError)"

section \<open>Trimming\<close>

text \<open>
  Modelled from the spec: \<open>trim_dict\<close> of the absent base class \<open>HighchartsMeta\<close>.
  Section 4.3: the mapping is produced by reading each field, recursing into nested
  entities' \<open>to_dict\<close>, and trimming recursively drops any key whose value is \<open>None\<close>,
  an empty mapping or an empty sequence, at every nesting level.
\<close>

fun is_empty :: "pyval \<Rightarrow> bool" where
  "is_empty PNone = True"
| "is_empty (PDict kvs) = (kvs = [])"
| "is_empty (PList xs) = (xs = [])"
| "is_empty v = False"

fun trim_value :: "env \<Rightarrow> pyval \<Rightarrow> pyval"
  and trim_dict :: "env \<Rightarrow> pydict \<Rightarrow> pydict"
  and trim_list :: "env \<Rightarrow> pyval list \<Rightarrow> pyval list" where
  "trim_value env (PDict kvs) = PDict (trim_dict env kvs)"
| "trim_value env (PList xs) = PList (trim_list env xs)"
| "trim_value env (PObj c a) = PDict (entity_to_dict env c a)"
| "trim_value env v = v"
| "trim_dict env [] = []"
| "trim_dict env ((k, v) # kvs) =
     (if is_empty (trim_value env v) then trim_dict env kvs
      else (k, trim_value env v) # trim_dict env kvs)"
| "trim_list env [] = []"
| "trim_list env (x # xs) = trim_value env x # trim_list env xs"

section \<open>Zone\<close>

text \<open>\<open>highcharts/plot_options/zones.py\<close>.\<close>

record zone =
  zone_class_name :: pyval
  zone_color :: pyval
  zone_dash_style :: pyval
  zone_fill_color :: pyval
  zone_value :: pyval

definition Zone_new :: zone where
  "Zone_new = \<lparr>zone_class_name = PNone, zone_color = PNone, zone_dash_style = PNone,
     zone_fill_color = PNone, zone_value = PNone\<rparr>"

text \<open>
  Modelled from the spec: \<open>constants.SUPPORTED_DASH_STYLE_VALUES\<close> belongs to the absent
  \<open>constants\<close> module; its members are the values that the docstring of
  \<open>Zone.dash_style\<close> lists as accepted.
\<close>

definition SUPPORTED_DASH_STYLE_VALUES :: "string list" where
  "SUPPORTED_DASH_STYLE_VALUES =
     [''Dash'', ''DashDot'', ''Dot'', ''LongDash'', ''LongDashDot'', ''LongDashDotDot'',
      ''ShortDash'', ''ShortDashDot'', ''ShortDashDotDot'', ''ShortDot'', ''Solid'']"

definition Zone_class_name_setter :: "zone \<Rightarrow> pyval \<Rightarrow> error + zone" where
  "Zone_class_name_setter self value =
     assign (validators_string value True) (\<lambda>v. self\<lparr>zone_class_name := v\<rparr>)"

definition Zone_color_setter :: "env \<Rightarrow> zone \<Rightarrow> pyval \<Rightarrow> error + zone" where
  "Zone_color_setter env self value =
     assign (resolve_color env value) (\<lambda>v. self\<lparr>zone_color := v\<rparr>)"

definition Zone_dash_style_setter :: "zone \<Rightarrow> pyval \<Rightarrow> error + zone" where
  "Zone_dash_style_setter self value =
     (if \<not> truthy value then Inr (self\<lparr>zone_dash_style := PNone\<rparr>)
      else case validators_string value False of
        Inl e \<Rightarrow> Inl e
      | Inr value1 \<Rightarrow>
          if value1 \<notin> set (map PStr SUPPORTED_DASH_STYLE_VALUES)
          then Inl HighchartsValueError
          else Inr (self\<lparr>zone_dash_style := value1\<rparr>))"

definition Zone_fill_color_setter :: "env \<Rightarrow> zone \<Rightarrow> pyval \<Rightarrow> error + zone" where
  "Zone_fill_color_setter env self value =
     assign (resolve_color env value) (\<lambda>v. self\<lparr>zone_fill_color := v\<rparr>)"

definition Zone_value_setter :: "env \<Rightarrow> zone \<Rightarrow> pyval \<Rightarrow> error + zone" where
  "Zone_value_setter env self value =
     assign (validators_numeric env value True None None) (\<lambda>v. self\<lparr>zone_value := v\<rparr>)"

definition Zone_init :: "env \<Rightarrow> pydict \<Rightarrow> error + zone" where
  "Zone_init env kwargs =
     run_setters Zone_new
       [(\<lambda>self. Zone_class_name_setter self (pop kwargs ''class_name'' PNone)),
        (\<lambda>self. Zone_color_setter env self (pop kwargs ''color'' PNone)),
        (\<lambda>self. Zone_dash_style_setter self (pop kwargs ''dash_style'' PNone)),
        (\<lambda>self. Zone_fill_color_setter env self (pop kwargs ''fill_color'' PNone)),
        (\<lambda>self. Zone_value_setter env self (pop kwargs ''value'' PNone))]"

definition Zone_from_dict :: "env \<Rightarrow> pydict \<Rightarrow> error + zone" where
  "Zone_from_dict env as_dict =
     Zone_init env
       [(''class_name'', pop as_dict ''className'' PNone),
        (''color'', pop as_dict ''color'' PNone),
        (''dash_style'', pop as_dict ''dashStyle'' PNone),
        (''fill_color'', pop as_dict ''fillColor'' PNone),
        (''value'', pop as_dict ''value'' PNone)]"

definition Zone_to_dict :: "env \<Rightarrow> zone \<Rightarrow> pydict" where
  "Zone_to_dict env self =
     trim_dict env
       [(''className'', zone_class_name self),
        (''color'', zone_color self),
        (''dashStyle'', zone_dash_style self),
        (''fillColor'', zone_fill_color self),
        (''value'', zone_value self)]"

section \<open>Legend\<close>

text \<open>
  \<open>highcharts/legend/__init__.py\<close>. The record holds the private attributes that
  \<open>__init__\<close> creates; each setter takes the object and the assigned value and returns
  the updated object, or the error it raises.
\<close>

record legend =
  legend_accessibility :: pyval
  legend_align :: pyval
  legend_align_columns :: pyval
  legend_background_color :: pyval
  legend_border_color :: pyval
  legend_border_width :: pyval
  legend_border_radius :: pyval
  legend_bubble_legend :: pyval
  legend_class_name :: pyval
  legend_enabled :: pyval
  legend_floating :: pyval
  legend_item_checkbox_style :: pyval
  legend_item_distance :: pyval
  legend_item_hidden_style :: pyval
  legend_item_hover_style :: pyval
  legend_item_margin_bottom :: pyval
  legend_item_margin_top :: pyval
  legend_item_style :: pyval
  legend_item_width :: pyval
  legend_label_format :: pyval
  legend_label_formatter :: pyval
  legend_layout :: pyval
  legend_margin :: pyval
  legend_max_height :: pyval
  legend_navigation :: pyval
  legend_padding :: pyval
  legend_reversed :: pyval
  legend_rtl :: pyval
  legend_shadow :: pyval
  legend_square_symbol :: pyval
  legend_symbol_height :: pyval
  legend_symbol_padding :: pyval
  legend_symbol_radius :: pyval
  legend_symbol_width :: pyval
  legend_title :: pyval
  legend_use_html :: pyval
  legend_vertical_align :: pyval
  legend_width :: pyval
  legend_x :: pyval
  legend_y :: pyval

definition Legend_new :: legend where
  "Legend_new = \<lparr>legend_accessibility = PNone,
     legend_align = PNone,
     legend_align_columns = PNone,
     legend_background_color = PNone,
     legend_border_color = PNone,
     legend_border_width = PNone,
     legend_border_radius = PNone,
     legend_bubble_legend = PNone,
     legend_class_name = PNone,
     legend_enabled = PNone,
     legend_floating = PNone,
     legend_item_checkbox_style = PNone,
     legend_item_distance = PNone,
     legend_item_hidden_style = PNone,
     legend_item_hover_style = PNone,
     legend_item_margin_bottom = PNone,
     legend_item_margin_top = PNone,
     legend_item_style = PNone,
     legend_item_width = PNone,
     legend_label_format = PNone,
     legend_label_formatter = PNone,
     legend_layout = PNone,
     legend_margin = PNone,
     legend_max_height = PNone,
     legend_navigation = PNone,
     legend_padding = PNone,
     legend_reversed = PNone,
     legend_rtl = PNone,
     legend_shadow = PNone,
     legend_square_symbol = PNone,
     legend_symbol_height = PNone,
     legend_symbol_padding = PNone,
     legend_symbol_radius = PNone,
     legend_symbol_width = PNone,
     legend_title = PNone,
     legend_use_html = PNone,
     legend_vertical_align = PNone,
     legend_width = PNone,
     legend_x = PNone,
     legend_y = PNone\<rparr>"

definition Legend_accessibility_setter ::
  "env \<Rightarrow> legend \<Rightarrow> pyval \<Rightarrow> error + legend" where
  "Legend_accessibility_setter env self value =
     assign (class_sensitive env [''LegendAccessibilityOptions''] value)
       (\<lambda>v. self\<lparr>legend_accessibility := v\<rparr>)"

definition Legend_align_setter ::
  "legend \<Rightarrow> pyval \<Rightarrow> error + legend" where
  "Legend_align_setter self value =
     (if \<not> truthy value then Inr (self\<lparr>legend_align := PNone\<rparr>)
      else case validators_string value False of
        Inl e \<Rightarrow> Inl e
      | Inr value1 \<Rightarrow>
          (case py_lower value1 of
             Inl e \<Rightarrow> Inl e
           | Inr value2 \<Rightarrow>
               if value2 \<notin> set (map PStr [''left'', ''center'', ''right''])
               then Inl HighchartsValueError
               else Inr (self\<lparr>legend_align := value2\<rparr>)))"

definition Legend_align_columns_setter ::
  "legend \<Rightarrow> pyval \<Rightarrow> error + legend" where
  "Legend_align_columns_setter self value =
     (if value = PNone then Inr (self\<lparr>legend_align_columns := PNone\<rparr>)
      else Inr (self\<lparr>legend_align_columns := PBool (truthy value)\<rparr>))"

definition Legend_background_color_setter ::
  "env \<Rightarrow> legend \<Rightarrow> pyval \<Rightarrow> error + legend" where
  "Legend_background_color_setter env self value =
     assign (resolve_color env value)
       (\<lambda>v. self\<lparr>legend_background_color := v\<rparr>)"

definition Legend_border_color_setter ::
  "env \<Rightarrow> legend \<Rightarrow> pyval \<Rightarrow> error + legend" where
  "Legend_border_color_setter env self value =
     assign (resolve_color env value)
       (\<lambda>v. self\<lparr>legend_border_color := v\<rparr>)"

definition Legend_border_width_setter ::
  "env \<Rightarrow> legend \<Rightarrow> pyval \<Rightarrow> error + legend" where
  "Legend_border_width_setter env self value =
     assign (validators_numeric env value True None None)
       (\<lambda>v. self\<lparr>legend_border_width := v\<rparr>)"

definition Legend_border_radius_setter ::
  "env \<Rightarrow> legend \<Rightarrow> pyval \<Rightarrow> error + legend" where
  "Legend_border_radius_setter env self value =
     assign (validators_numeric env value True None None)
       (\<lambda>v. self\<lparr>legend_border_radius := v\<rparr>)"

definition Legend_bubble_legend_setter ::
  "env \<Rightarrow> legend \<Rightarrow> pyval \<Rightarrow> error + legend" where
  "Legend_bubble_legend_setter env self value =
     assign (class_sensitive env [''BubbleLegend''] value)
       (\<lambda>v. self\<lparr>legend_bubble_legend := v\<rparr>)"

definition Legend_class_name_setter ::
  "legend \<Rightarrow> pyval \<Rightarrow> error + legend" where
  "Legend_class_name_setter self value =
     assign (validators_string value True)
       (\<lambda>v. self\<lparr>legend_class_name := v\<rparr>)"

definition Legend_enabled_setter ::
  "legend \<Rightarrow> pyval \<Rightarrow> error + legend" where
  "Legend_enabled_setter self value =
     (if value = PNone then Inr (self\<lparr>legend_enabled := PNone\<rparr>)
      else Inr (self\<lparr>legend_enabled := PBool (truthy value)\<rparr>))"

definition Legend_floating_setter ::
  "legend \<Rightarrow> pyval \<Rightarrow> error + legend" where
  "Legend_floating_setter self value =
     (if value = PNone then Inr (self\<lparr>legend_floating := PNone\<rparr>)
      else Inr (self\<lparr>legend_floating := PBool (truthy value)\<rparr>))"

definition Legend_item_checkbox_style_setter ::
  "legend \<Rightarrow> pyval \<Rightarrow> error + legend" where
  "Legend_item_checkbox_style_setter self value =
     assign (validators_string value True)
       (\<lambda>v. self\<lparr>legend_item_checkbox_style := v\<rparr>)"

definition Legend_item_distance_setter ::
  "env \<Rightarrow> legend \<Rightarrow> pyval \<Rightarrow> error + legend" where
  "Legend_item_distance_setter env self value =
     assign (validators_numeric env value True (Some 0) None)
       (\<lambda>v. self\<lparr>legend_item_distance := v\<rparr>)"

definition Legend_item_hidden_style_setter ::
  "legend \<Rightarrow> pyval \<Rightarrow> error + legend" where
  "Legend_item_hidden_style_setter self value =
     assign (validators_string value True)
       (\<lambda>v. self\<lparr>legend_item_hidden_style := v\<rparr>)"

definition Legend_item_hover_style_setter ::
  "legend \<Rightarrow> pyval \<Rightarrow> error + legend" where
  "Legend_item_hover_style_setter self value =
     assign (validators_string value True)
       (\<lambda>v. self\<lparr>legend_item_hover_style := v\<rparr>)"

definition Legend_item_margin_bottom_setter ::
  "env \<Rightarrow> legend \<Rightarrow> pyval \<Rightarrow> error + legend" where
  "Legend_item_margin_bottom_setter env self value =
     assign (validators_numeric env value True (Some 0) None)
       (\<lambda>v. self\<lparr>legend_item_margin_bottom := v\<rparr>)"

definition Legend_item_margin_top_setter ::
  "env \<Rightarrow> legend \<Rightarrow> pyval \<Rightarrow> error + legend" where
  "Legend_item_margin_top_setter env self value =
     assign (validators_numeric env value True (Some 0) None)
       (\<lambda>v. self\<lparr>legend_item_margin_top := v\<rparr>)"

definition Legend_item_style_setter ::
  "legend \<Rightarrow> pyval \<Rightarrow> error + legend" where
  "Legend_item_style_setter self value =
     assign (validators_string value True)
       (\<lambda>v. self\<lparr>legend_item_style := v\<rparr>)"

definition Legend_item_width_setter ::
  "env \<Rightarrow> legend \<Rightarrow> pyval \<Rightarrow> error + legend" where
  "Legend_item_width_setter env self value =
     assign (validators_numeric env value True (Some 0) None)
       (\<lambda>v. self\<lparr>legend_item_width := v\<rparr>)"

definition Legend_label_format_setter ::
  "legend \<Rightarrow> pyval \<Rightarrow> error + legend" where
  "Legend_label_format_setter self value =
     assign (validators_string value True)
       (\<lambda>v. self\<lparr>legend_label_format := v\<rparr>)"

definition Legend_label_formatter_setter ::
  "env \<Rightarrow> legend \<Rightarrow> pyval \<Rightarrow> error + legend" where
  "Legend_label_formatter_setter env self value =
     assign (class_sensitive env [''CallbackFunction''] value)
       (\<lambda>v. self\<lparr>legend_label_formatter := v\<rparr>)"

definition Legend_layout_setter ::
  "legend \<Rightarrow> pyval \<Rightarrow> error + legend" where
  "Legend_layout_setter self value =
     (if \<not> truthy value then Inr (self\<lparr>legend_layout := PNone\<rparr>)
      else case validators_string value False of
        Inl e \<Rightarrow> Inl e
      | Inr value1 \<Rightarrow>
          (case py_lower value1 of
             Inl e \<Rightarrow> Inl e
           | Inr value2 \<Rightarrow>
               if value2 \<notin> set (map PStr [''horizontal'', ''vertical'', ''proximate''])
               then Inl HighchartsValueError
               else Inr (self\<lparr>legend_layout := value2\<rparr>)))"

definition Legend_margin_setter ::
  "env \<Rightarrow> legend \<Rightarrow> pyval \<Rightarrow> error + legend" where
  "Legend_margin_setter env self value =
     assign (validators_numeric env value True None None)
       (\<lambda>v. self\<lparr>legend_margin := v\<rparr>)"

definition Legend_max_height_setter ::
  "env \<Rightarrow> legend \<Rightarrow> pyval \<Rightarrow> error + legend" where
  "Legend_max_height_setter env self value =
     assign (validators_numeric env value True (Some 0) None)
       (\<lambda>v. self\<lparr>legend_max_height := v\<rparr>)"

definition Legend_navigation_setter ::
  "env \<Rightarrow> legend \<Rightarrow> pyval \<Rightarrow> error + legend" where
  "Legend_navigation_setter env self value =
     assign (class_sensitive env [''LegendNavigation''] value)
       (\<lambda>v. self\<lparr>legend_navigation := v\<rparr>)"

definition Legend_padding_setter ::
  "env \<Rightarrow> legend \<Rightarrow> pyval \<Rightarrow> error + legend" where
  "Legend_padding_setter env self value =
     assign (validators_numeric env value True None None)
       (\<lambda>v. self\<lparr>legend_padding := v\<rparr>)"

definition Legend_reversed_setter ::
  "legend \<Rightarrow> pyval \<Rightarrow> error + legend" where
  "Legend_reversed_setter self value =
     (if value = PNone then Inr (self\<lparr>legend_reversed := PNone\<rparr>)
      else Inr (self\<lparr>legend_reversed := PBool (truthy value)\<rparr>))"

definition Legend_rtl_setter :: "legend \<Rightarrow> pyval \<Rightarrow> error + legend" where
  "Legend_rtl_setter self value =
     (if value = PNone then Inr (self\<lparr>legend_rtl := PNone\<rparr>)
      else Inr (self\<lparr>legend_rtl := PBool (truthy value)\<rparr>))"

definition Legend_shadow_setter ::
  "env \<Rightarrow> legend \<Rightarrow> pyval \<Rightarrow> error + legend" where
  "Legend_shadow_setter env self value =
     (if value = PNone then Inr (self\<lparr>legend_shadow := PNone\<rparr>)
      else if value = PBool False then Inr (self\<lparr>legend_shadow := PBool False\<rparr>)
      else assign (validate_types env value [''ShadowOptions''] False)
             (\<lambda>v. self\<lparr>legend_shadow := v\<rparr>))"

definition Legend_square_symbol_setter ::
  "legend \<Rightarrow> pyval \<Rightarrow> error + legend" where
  "Legend_square_symbol_setter self value =
     (if value = PNone then Inr (self\<lparr>legend_square_symbol := PNone\<rparr>)
      else Inr (self\<lparr>legend_square_symbol := PBool (truthy value)\<rparr>))"

definition Legend_symbol_height_setter ::
  "env \<Rightarrow> legend \<Rightarrow> pyval \<Rightarrow> error + legend" where
  "Legend_symbol_height_setter env self value =
     assign (validators_numeric env value True (Some 0) None)
       (\<lambda>v. self\<lparr>legend_symbol_height := v\<rparr>)"

definition Legend_symbol_padding_setter ::
  "env \<Rightarrow> legend \<Rightarrow> pyval \<Rightarrow> error + legend" where
  "Legend_symbol_padding_setter env self value =
     assign (validators_numeric env value True None None)
       (\<lambda>v. self\<lparr>legend_symbol_padding := v\<rparr>)"

definition Legend_symbol_radius_setter ::
  "env \<Rightarrow> legend \<Rightarrow> pyval \<Rightarrow> error + legend" where
  "Legend_symbol_radius_setter env self value =
     assign (validators_numeric env value True None None)
       (\<lambda>v. self\<lparr>legend_symbol_radius := v\<rparr>)"

definition Legend_symbol_width_setter ::
  "env \<Rightarrow> legend \<Rightarrow> pyval \<Rightarrow> error + legend" where
  "Legend_symbol_width_setter env self value =
     assign (validators_numeric env value True (Some 0) None)
       (\<lambda>v. self\<lparr>legend_symbol_width := v\<rparr>)"

definition Legend_title_setter ::
  "env \<Rightarrow> legend \<Rightarrow> pyval \<Rightarrow> error + legend" where
  "Legend_title_setter env self value =
     assign (class_sensitive env [''LegendTitle''] value)
       (\<lambda>v. self\<lparr>legend_title := v\<rparr>)"

definition Legend_use_html_setter ::
  "legend \<Rightarrow> pyval \<Rightarrow> error + legend" where
  "Legend_use_html_setter self value =
     (if value = PNone then Inr (self\<lparr>legend_use_html := PNone\<rparr>)
      else Inr (self\<lparr>legend_use_html := PBool (truthy value)\<rparr>))"

definition Legend_vertical_align_setter ::
  "legend \<Rightarrow> pyval \<Rightarrow> error + legend" where
  "Legend_vertical_align_setter self value =
     (if \<not> truthy value then Inr (self\<lparr>legend_vertical_align := PNone\<rparr>)
      else case validators_string value True of
        Inl e \<Rightarrow> Inl e
      | Inr value1 \<Rightarrow>
          (case py_lower value1 of
             Inl e \<Rightarrow> Inl e
           | Inr value2 \<Rightarrow>
               if value2 \<notin> set (map PStr [''bottom'', ''middle'', ''top''])
               then Inl HighchartsValueError
               else Inr (self\<lparr>legend_vertical_align := value2\<rparr>)))"

text \<open>
  \<open>Legend.width\<close>: the string validator first; only a \<open>ValueError\<close> from it falls
  back to the numeric validator with minimum 0.
\<close>

definition Legend_width_setter ::
  "env \<Rightarrow> legend \<Rightarrow> pyval \<Rightarrow> error + legend" where
  "Legend_width_setter env self value =
     (if \<not> truthy value then Inr (self\<lparr>legend_width := PNone\<rparr>)
      else case validators_string value False of
        Inr v \<Rightarrow> Inr (self\<lparr>legend_width := v\<rparr>)
      | Inl e \<Rightarrow>
          if is_ValueError e
          then assign (validators_numeric env value False (Some 0) None)
                 (\<lambda>v. self\<lparr>legend_width := v\<rparr>)
          else Inl e)"

text \<open>
  \<open>Legend.x\<close> and \<open>Legend.y\<close>: the body is
  \<^verbatim>\<open>value = validators.numeric(value, allow_empty = True)\<close>, which validates and rebinds
  the local name; nothing is stored in \<open>self._x\<close> or \<open>self._y\<close>.
\<close>

definition Legend_x_setter ::
  "env \<Rightarrow> legend \<Rightarrow> pyval \<Rightarrow> error + legend" where
  "Legend_x_setter env self value =
     assign (validators_numeric env value True None None) (\<lambda>v. self)"

definition Legend_y_setter ::
  "env \<Rightarrow> legend \<Rightarrow> pyval \<Rightarrow> error + legend" where
  "Legend_y_setter env self value =
     assign (validators_numeric env value True None None) (\<lambda>v. self)"

text \<open>
  \<open>Legend.__init__\<close>: every private attribute starts as \<open>None\<close>, then each property
  is assigned from the keyword arguments, in the order of the source.
\<close>

definition Legend_init :: "env \<Rightarrow> pydict \<Rightarrow> error + legend" where
  "Legend_init env kwargs =
     run_setters Legend_new
       [
        (\<lambda>self. Legend_accessibility_setter env self (pop kwargs ''accessibility'' PNone)),
        (\<lambda>self. Legend_align_setter self (pop kwargs ''align'' PNone)),
        (\<lambda>self. Legend_align_columns_setter self (pop kwargs ''align_columns'' PNone)),
        (\<lambda>self. Legend_background_color_setter env self (pop kwargs ''background_color'' PNone)),
        (\<lambda>self. Legend_border_color_setter env self (pop kwargs ''border_color'' PNone)),
        (\<lambda>self. Legend_border_width_setter env self (pop kwargs ''border_width'' PNone)),
        (\<lambda>self. Legend_border_radius_setter env self (pop kwargs ''border_radius'' PNone)),
        (\<lambda>self. Legend_bubble_legend_setter env self (pop kwargs ''bubble_legend'' PNone)),
        (\<lambda>self. Legend_class_name_setter self (pop kwargs ''class_name'' PNone)),
        (\<lambda>self. Legend_enabled_setter self (pop kwargs ''enabled'' PNone)),
        (\<lambda>self. Legend_floating_setter self (pop kwargs ''floating'' PNone)),
        (\<lambda>self. Legend_item_checkbox_style_setter self (pop kwargs ''item_checkbox_style'' PNone)),
        (\<lambda>self. Legend_item_distance_setter env self (pop kwargs ''item_distance'' PNone)),
        (\<lambda>self. Legend_item_hidden_style_setter self (pop kwargs ''item_hidden_style'' PNone)),
        (\<lambda>self. Legend_item_hover_style_setter self (pop kwargs ''item_hover_style'' PNone)),
        (\<lambda>self. Legend_item_margin_bottom_setter env self (pop kwargs ''item_margin_bottom'' PNone)),
        (\<lambda>self. Legend_item_margin_top_setter env self (pop kwargs ''item_margin_top'' PNone)),
        (\<lambda>self. Legend_item_style_setter self (pop kwargs ''item_style'' PNone)),
        (\<lambda>self. Legend_item_width_setter env self (pop kwargs ''item_width'' PNone)),
        (\<lambda>self. Legend_label_format_setter self (pop kwargs ''label_format'' PNone)),
        (\<lambda>self. Legend_label_formatter_setter env self (pop kwargs ''label_formatter'' PNone)),
        (\<lambda>self. Legend_layout_setter self (pop kwargs ''layout'' PNone)),
        (\<lambda>self. Legend_margin_setter env self (pop kwargs ''margin'' PNone)),
        (\<lambda>self. Legend_max_height_setter env self (pop kwargs ''max_height'' PNone)),
        (\<lambda>self. Legend_navigation_setter env self (pop kwargs ''navigation'' PNone)),
        (\<lambda>self. Legend_padding_setter env self (pop kwargs ''padding'' PNone)),
        (\<lambda>self. Legend_reversed_setter self (pop kwargs ''reversed'' PNone)),
        (\<lambda>self. Legend_rtl_setter self (pop kwargs ''rtl'' PNone)),
        (\<lambda>self. Legend_shadow_setter env self (pop kwargs ''shadow'' PNone)),
        (\<lambda>self. Legend_square_symbol_setter self (pop kwargs ''square_symbol'' PNone)),
        (\<lambda>self. Legend_symbol_height_setter env self (pop kwargs ''symbol_height'' PNone)),
        (\<lambda>self. Legend_symbol_padding_setter env self (pop kwargs ''symbol_padding'' PNone)),
        (\<lambda>self. Legend_symbol_radius_setter env self (pop kwargs ''symbol_radius'' PNone)),
        (\<lambda>self. Legend_symbol_width_setter env self (pop kwargs ''symbol_width'' PNone)),
        (\<lambda>self. Legend_title_setter env self (pop kwargs ''title'' PNone)),
        (\<lambda>self. Legend_use_html_setter self (pop kwargs ''use_html'' PNone)),
        (\<lambda>self. Legend_vertical_align_setter self (pop kwargs ''vertical_align'' PNone)),
        (\<lambda>self. Legend_width_setter env self (pop kwargs ''width'' PNone)),
        (\<lambda>self. Legend_x_setter env self (pop kwargs ''x'' PNone)),
        (\<lambda>self. Legend_y_setter env self (pop kwargs ''y'' PNone))
       ]"

definition Legend_from_dict :: "env \<Rightarrow> pydict \<Rightarrow> error + legend" where
  "Legend_from_dict env as_dict =
     Legend_init env
       [
        (''accessibility'', pop as_dict ''accessibility'' PNone),
        (''align'', pop as_dict ''align'' PNone),
        (''align_columns'', pop as_dict ''alignColumns'' PNone),
        (''background_color'', pop as_dict ''backgroundColor'' PNone),
        (''border_color'', pop as_dict ''borderColor'' PNone),
        (''border_width'', pop as_dict ''borderWidth'' PNone),
        (''border_radius'', pop as_dict ''borderRadius'' PNone),
        (''bubble_legend'', pop as_dict ''bubbleLegend'' PNone),
        (''class_name'', pop as_dict ''className'' PNone),
        (''enabled'', pop as_dict ''enabled'' PNone),
        (''floating'', pop as_dict ''floating'' PNone),
        (''item_checkbox_style'', pop as_dict ''itemCheckboxStyle'' PNone),
        (''item_distance'', pop as_dict ''itemDistance'' PNone),
        (''item_hidden_style'', pop as_dict ''itemHiddenStyle'' PNone),
        (''item_hover_style'', pop as_dict ''itemHoverStyle'' PNone),
        (''item_margin_bottom'', pop as_dict ''itemMarginBottom'' PNone),
        (''item_margin_top'', pop as_dict ''itemMarginTop'' PNone),
        (''item_style'', pop as_dict ''itemStyle'' PNone),
        (''item_width'', pop as_dict ''itemWidth'' PNone),
        (''label_format'', pop as_dict ''labelFormat'' PNone),
        (''label_formatter'', pop as_dict ''labelFormatter'' PNone),
        (''layout'', pop as_dict ''layout'' PNone),
        (''margin'', pop as_dict ''margin'' PNone),
        (''max_height'', pop as_dict ''maxHeight'' PNone),
        (''navigation'', pop as_dict ''navigation'' PNone),
        (''padding'', pop as_dict ''padding'' PNone),
        (''reversed'', pop as_dict ''reversed'' PNone),
        (''rtl'', pop as_dict ''rtl'' PNone),
        (''shadow'', pop as_dict ''shadow'' PNone),
        (''square_symbol'', pop as_dict ''squareSymbol'' PNone),
        (''symbol_height'', pop as_dict ''symbolHeight'' PNone),
        (''symbol_padding'', pop as_dict ''symbolPadding'' PNone),
        (''symbol_radius'', pop as_dict ''symbolRadius'' PNone),
        (''symbol_width'', pop as_dict ''symbolWidth'' PNone),
        (''title'', pop as_dict ''title'' PNone),
        (''use_html'', pop as_dict ''useHTML'' PNone),
        (''vertical_align'', pop as_dict ''verticalAlign'' PNone),
        (''width'', pop as_dict ''width'' PNone),
        (''x'', pop as_dict ''x'' PNone),
        (''y'', pop as_dict ''y'' PNone)
       ]"

definition Legend_to_untrimmed_dict :: "legend \<Rightarrow> pydict" where
  "Legend_to_untrimmed_dict self =
       [
        (''accessibility'', legend_accessibility self),
        (''align'', legend_align self),
        (''alignColumns'', legend_align_columns self),
        (''backgroundColor'', legend_background_color self),
        (''borderColor'', legend_border_color self),
        (''borderWidth'', legend_border_width self),
        (''borderRadius'', legend_border_radius self),
        (''bubbleLegend'', legend_bubble_legend self),
        (''className'', legend_class_name self),
        (''enabled'', legend_enabled self),
        (''floating'', legend_floating self),
        (''itemCheckboxStyle'', legend_item_checkbox_style self),
        (''itemDistance'', legend_item_distance self),
        (''itemHiddenStyle'', legend_item_hidden_style self),
        (''itemHoverStyle'', legend_item_hover_style self),
        (''itemMarginBottom'', legend_item_margin_bottom self),
        (''itemMarginTop'', legend_item_margin_top self),
        (''itemStyle'', legend_item_style self),
        (''itemWidth'', legend_item_width self),
        (''labelFormat'', legend_label_format self),
        (''labelFormatter'', legend_label_formatter self),
        (''layout'', legend_layout self),
        (''margin'', legend_margin self),
        (''maxHeight'', legend_max_height self),
        (''navigation'', legend_navigation self),
        (''padding'', legend_padding self),
        (''reversed'', legend_reversed self),
        (''rtl'', legend_rtl self),
        (''shadow'', legend_shadow self),
        (''squareSymbol'', legend_square_symbol self),
        (''symbolHeight'', legend_symbol_height self),
        (''symbolPadding'', legend_symbol_padding self),
        (''symbolRadius'', legend_symbol_radius self),
        (''symbolWidth'', legend_symbol_width self),
        (''title'', legend_title self),
        (''useHTML'', legend_use_html self),
        (''verticalAlign'', legend_vertical_align self),
        (''width'', legend_width self),
        (''x'', legend_x self),
        (''y'', legend_y self)
       ]"

text \<open>
  Modelled from the spec: \<open>to_dict\<close> of the absent base class \<open>HighchartsMeta\<close>, which
  \<open>Legend\<close> inherits: the untrimmed mapping, trimmed (section 4.3).
\<close>

definition Legend_to_dict :: "env \<Rightarrow> legend \<Rightarrow> pydict" where
  "Legend_to_dict env self = trim_dict env (Legend_to_untrimmed_dict self)"

section \<open>HoverState and SelectState\<close>

text \<open>
  \<open>highcharts/utility_classes/states.py\<close>. Both classes define the property \<open>color\<close>
  twice. In a Python class body the later definition replaces the earlier one, so the
  setter in force is the second: the plain string validator. The first, which holds the
  color resolver, is kept here under the name \<open>..._color_setter_shadowed\<close>.
\<close>

record hover_state =
  hover_animation :: pyval
  hover_border_color :: pyval
  hover_brightness :: pyval
  hover_color :: pyval
  hover_enabled :: pyval

definition HoverState_new :: hover_state where
  "HoverState_new = \<lparr>hover_animation = PNone, hover_border_color = PNone,
     hover_brightness = PFloat (1 / 10), hover_color = PNone, hover_enabled = PBool True\<rparr>"

definition HoverState_animation_setter :: "env \<Rightarrow> hover_state \<Rightarrow> pyval \<Rightarrow> error + hover_state" where
  "HoverState_animation_setter env self value =
     assign (class_sensitive env [''AnimationOptions''] value)
       (\<lambda>v. self\<lparr>hover_animation := v\<rparr>)"

definition HoverState_border_color_setter :: "env \<Rightarrow> hover_state \<Rightarrow> pyval \<Rightarrow> error + hover_state" where
  "HoverState_border_color_setter env self value =
     assign (resolve_color env value) (\<lambda>v. self\<lparr>hover_border_color := v\<rparr>)"

definition HoverState_brightness_setter :: "env \<Rightarrow> hover_state \<Rightarrow> pyval \<Rightarrow> error + hover_state" where
  "HoverState_brightness_setter env self value =
     assign (validators_numeric env value True None None)
       (\<lambda>v. self\<lparr>hover_brightness := v\<rparr>)"

definition HoverState_color_setter_shadowed :: "env \<Rightarrow> hover_state \<Rightarrow> pyval \<Rightarrow> error + hover_state" where
  "HoverState_color_setter_shadowed env self value =
     assign (resolve_color env value) (\<lambda>v. self\<lparr>hover_color := v\<rparr>)"

definition HoverState_color_setter :: "hover_state \<Rightarrow> pyval \<Rightarrow> error + hover_state" where
  "HoverState_color_setter self value =
     assign (validators_string value True) (\<lambda>v. self\<lparr>hover_color := v\<rparr>)"

definition HoverState_enabled_setter :: "hover_state \<Rightarrow> pyval \<Rightarrow> error + hover_state" where
  "HoverState_enabled_setter self value =
     (if value = PNone then Inr (self\<lparr>hover_enabled := PNone\<rparr>)
      else Inr (self\<lparr>hover_enabled := PBool (truthy value)\<rparr>))"

definition HoverState_init :: "env \<Rightarrow> pydict \<Rightarrow> error + hover_state" where
  "HoverState_init env kwargs =
     run_setters HoverState_new
       [(\<lambda>self. HoverState_animation_setter env self (pop kwargs ''animation'' PNone)),
        (\<lambda>self. HoverState_border_color_setter env self (pop kwargs ''border_color'' PNone)),
        (\<lambda>self. HoverState_brightness_setter env self
                  (pop kwargs ''brightness'' (PFloat (1 / 10)))),
        (\<lambda>self. HoverState_color_setter self (pop kwargs ''color'' PNone)),
        (\<lambda>self. HoverState_enabled_setter self (pop kwargs ''enabled'' (PBool True)))]"

definition HoverState_from_dict :: "env \<Rightarrow> pydict \<Rightarrow> error + hover_state" where
  "HoverState_from_dict env as_dict =
     HoverState_init env
       [(''animation'', pop as_dict ''animation'' PNone),
        (''border_color'', pop as_dict ''borderColor'' PNone),
        (''brightness'', pop as_dict ''brightness'' (PFloat (1 / 10))),
        (''color'', pop as_dict ''color'' PNone),
        (''enabled'', pop as_dict ''enabled'' (PBool True))]"

definition HoverState_to_dict :: "env \<Rightarrow> hover_state \<Rightarrow> pydict" where
  "HoverState_to_dict env self =
     trim_dict env
       [(''animation'', hover_animation self),
        (''borderColor'', hover_border_color self),
        (''brightness'', hover_brightness self),
        (''color'', hover_color self),
        (''enabled'', hover_enabled self)]"

record select_state =
  select_animation :: pyval
  select_border_color :: pyval
  select_color :: pyval
  select_enabled :: pyval

definition SelectState_new :: select_state where
  "SelectState_new = \<lparr>select_animation = PNone, select_border_color = PNone,
     select_color = PNone, select_enabled = PBool True\<rparr>"

definition SelectState_animation_setter :: "env \<Rightarrow> select_state \<Rightarrow> pyval \<Rightarrow> error + select_state" where
  "SelectState_animation_setter env self value =
     assign (class_sensitive env [''AnimationOptions''] value)
       (\<lambda>v. self\<lparr>select_animation := v\<rparr>)"

definition SelectState_border_color_setter :: "env \<Rightarrow> select_state \<Rightarrow> pyval \<Rightarrow> error + select_state" where
  "SelectState_border_color_setter env self value =
     assign (resolve_color env value) (\<lambda>v. self\<lparr>select_border_color := v\<rparr>)"

definition SelectState_color_setter_shadowed :: "env \<Rightarrow> select_state \<Rightarrow> pyval \<Rightarrow> error + select_state" where
  "SelectState_color_setter_shadowed env self value =
     assign (resolve_color env value) (\<lambda>v. self\<lparr>select_color := v\<rparr>)"

definition SelectState_color_setter :: "select_state \<Rightarrow> pyval \<Rightarrow> error + select_state" where
  "SelectState_color_setter self value =
     assign (validators_string value True) (\<lambda>v. self\<lparr>select_color := v\<rparr>)"

definition SelectState_enabled_setter :: "select_state \<Rightarrow> pyval \<Rightarrow> error + select_state" where
  "SelectState_enabled_setter self value =
     (if value = PNone then Inr (self\<lparr>select_enabled := PNone\<rparr>)
      else Inr (self\<lparr>select_enabled := PBool (truthy value)\<rparr>))"

definition SelectState_init :: "env \<Rightarrow> pydict \<Rightarrow> error + select_state" where
  "SelectState_init env kwargs =
     run_setters SelectState_new
       [(\<lambda>self. SelectState_animation_setter env self (pop kwargs ''animation'' PNone)),
        (\<lambda>self. SelectState_border_color_setter env self
                  (pop kwargs ''border_color'' (PStr ''#000000''))),
        (\<lambda>self. SelectState_color_setter self (pop kwargs ''color'' (PStr ''#cccccc''))),
        (\<lambda>self. SelectState_enabled_setter self (pop kwargs ''enabled'' (PBool True)))]"

definition SelectState_from_dict :: "env \<Rightarrow> pydict \<Rightarrow> error + select_state" where
  "SelectState_from_dict env as_dict =
     SelectState_init env
       [(''animation'', pop as_dict ''animation'' PNone),
        (''border_color'', pop as_dict ''borderColor'' (PStr ''#000000'')),
        (''color'', pop as_dict ''color'' (PStr ''#cccccc'')),
        (''enabled'', pop as_dict ''enabled'' (PBool True))]"

definition SelectState_to_dict :: "env \<Rightarrow> select_state \<Rightarrow> pydict" where
  "SelectState_to_dict env self =
     trim_dict env
       [(''animation'', select_animation self),
        (''borderColor'', select_border_color self),
        (''color'', select_color self),
        (''enabled'', select_enabled self)]"

section \<open>Composed option classes\<close>

text \<open>
  The loop \<^verbatim>\<open>for key in parent_as_dict: untrimmed[key] = parent_as_dict[key]\<close> that
  \<open>HeatmapOptions.to_dict\<close>, \<open>SankeyOptions._to_untrimmed_dict\<close> and
  \<open>TreemapOptions.to_dict\<close> share. Every key visited is a key of \<open>parent_as_dict\<close>, so
  the read \<open>parent_as_dict[key]\<close> cannot fail.
\<close>

fun merge_loop :: "pydict \<Rightarrow> string list \<Rightarrow> pydict \<Rightarrow> pydict" where
  "merge_loop parent_as_dict [] untrimmed = untrimmed"
| "merge_loop parent_as_dict (key # keys) untrimmed =
     merge_loop parent_as_dict keys (dict_set untrimmed key (pop parent_as_dict key PNone))"

definition merge_parent :: "pydict \<Rightarrow> pydict \<Rightarrow> pydict" where
  "merge_parent untrimmed parent_as_dict =
     merge_loop parent_as_dict (map fst parent_as_dict) untrimmed"

subsection \<open>HeatmapOptions\<close>

text \<open>
  \<open>highcharts/plot_options/heatmap.py\<close>. The parent class \<open>SeriesOptions\<close> is absent:
  the mapping that \<open>super().to_dict()\<close> returns is the argument \<open>parent_as_dict\<close>.
\<close>

record heatmap =
  heatmap_border_radius :: pyval
  heatmap_colsize :: pyval
  heatmap_null_color :: pyval
  heatmap_point_padding :: pyval
  heatmap_rowsize :: pyval

definition HeatmapOptions_null_color_setter :: "env \<Rightarrow> heatmap \<Rightarrow> pyval \<Rightarrow> error + heatmap" where
  "HeatmapOptions_null_color_setter env self value =
     assign (resolve_color env value) (\<lambda>v. self\<lparr>heatmap_null_color := v\<rparr>)"

definition HeatmapOptions_untrimmed :: "heatmap \<Rightarrow> pydict" where
  "HeatmapOptions_untrimmed self =
     [(''borderRadius'', heatmap_border_radius self),
      (''colsize'', heatmap_colsize self),
      (''nullColor'', heatmap_null_color self),
      (''pointPadding'', heatmap_point_padding self),
      (''rowsize'', heatmap_rowsize self)]"

definition HeatmapOptions_to_dict :: "env \<Rightarrow> heatmap \<Rightarrow> pydict \<Rightarrow> pydict" where
  "HeatmapOptions_to_dict env self parent_as_dict =
     trim_dict env (merge_parent (HeatmapOptions_untrimmed self) parent_as_dict)"

subsection \<open>SankeyOptions\<close>

text \<open>
  \<open>highcharts_core/options/plot_options/sankey.py\<close>. The parent class
  \<open>DependencyWheelOptions\<close> is absent: the mapping that
  \<open>super()._to_untrimmed_dict(in_cls = in_cls)\<close> returns is the argument
  \<open>parent_as_dict\<close>.
\<close>

record sankey =
  sankey_link_color_mode :: pyval

definition SankeyOptions_link_color_mode_setter :: "sankey \<Rightarrow> pyval \<Rightarrow> error + sankey" where
  "SankeyOptions_link_color_mode_setter self value =
     (if \<not> truthy value then Inr (self\<lparr>sankey_link_color_mode := PNone\<rparr>)
      else case validators_string value False of
        Inl e \<Rightarrow> Inl e
      | Inr value1 \<Rightarrow>
          (case py_lower value1 of
             Inl e \<Rightarrow> Inl e
           | Inr value2 \<Rightarrow>
               if value2 \<notin> set (map PStr [''from'', ''gradient'', ''to''])
               then Inl HighchartsValueError
               else Inr (self\<lparr>sankey_link_color_mode := value2\<rparr>)))"

definition SankeyOptions_to_untrimmed_dict :: "sankey \<Rightarrow> pydict \<Rightarrow> pydict" where
  "SankeyOptions_to_untrimmed_dict self parent_as_dict =
     merge_parent [(''linkColorMode'', sankey_link_color_mode self)] parent_as_dict"

subsection \<open>TreemapOptions\<close>

text \<open>
  \<open>highcharts/plot_options/treemap.py\<close>. The record holds the private attributes that
  \<open>TreemapOptions.__init__\<close> creates; those of the absent parent class
  \<open>GenericTypeOptions\<close> play no part in what follows.
\<close>

record treemap =
  treemap_animation_limit :: pyval
  treemap_boost_blending :: pyval
  treemap_boost_threshold :: pyval
  treemap_border_radius :: pyval
  treemap_color_axis :: pyval
  treemap_color_key :: pyval
  treemap_colors :: pyval
  treemap_crop_threshold :: pyval
  treemap_find_nearest_point_by :: pyval
  treemap_get_extremes_for_all :: pyval
  treemap_ignore_hidden_point :: pyval
  treemap_linecap :: pyval
  treemap_line_width :: pyval
  treemap_negative_color :: pyval
  treemap_point_interval :: pyval
  treemap_point_interval_unit :: pyval
  treemap_point_start :: pyval
  treemap_relative_x_value :: pyval
  treemap_soft_threshold :: pyval
  treemap_stacking :: pyval
  treemap_step :: pyval
  treemap_zone_axis :: pyval
  treemap_zones :: pyval
  treemap_color_by_point :: pyval
  treemap_color_index :: pyval
  treemap_crisp :: pyval
  treemap_allow_traversing_tree :: pyval
  treemap_breadcrumbs :: pyval
  treemap_level_is_constant :: pyval
  treemap_levels :: pyval
  treemap_alternate_starting_direction :: pyval
  treemap_interact_by_leaf :: pyval
  treemap_layout_algorithm :: pyval
  treemap_layout_starting_direction :: pyval
  treemap_sort_index :: pyval

text \<open>The attributes as \<open>TreemapOptions.__init__\<close> first creates them.\<close>

definition TreemapOptions_new :: treemap where
  "TreemapOptions_new =
     \<lparr>treemap_animation_limit = PNone,
      treemap_boost_blending = PNone,
      treemap_boost_threshold = PNone,
      treemap_border_radius = PNone,
      treemap_color_axis = PNone,
      treemap_color_key = PNone,
      treemap_colors = PNone,
      treemap_crop_threshold = PNone,
      treemap_find_nearest_point_by = PNone,
      treemap_get_extremes_for_all = PNone,
      treemap_ignore_hidden_point = PNone,
      treemap_linecap = PNone,
      treemap_line_width = PNone,
      treemap_negative_color = PNone,
      treemap_point_interval = PNone,
      treemap_point_interval_unit = PNone,
      treemap_point_start = PNone,
      treemap_relative_x_value = PNone,
      treemap_soft_threshold = PNone,
      treemap_stacking = PNone,
      treemap_step = PNone,
      treemap_zone_axis = PNone,
      treemap_zones = PNone,
      treemap_color_by_point = PNone,
      treemap_color_index = PNone,
      treemap_crisp = PNone,
      treemap_allow_traversing_tree = PNone,
      treemap_breadcrumbs = PNone,
      treemap_level_is_constant = PNone,
      treemap_levels = PNone,
      treemap_alternate_starting_direction = PNone,
      treemap_interact_by_leaf = PNone,
      treemap_layout_algorithm = PNone,
      treemap_layout_starting_direction = PNone,
      treemap_sort_index = PNone\<rparr>"

text \<open>
  \<open>TreemapOptions.colors\<close>. Inside the loop the test is \<open>isinstance(value, str)\<close>, on
  the whole assigned value, not on \<open>item\<close>.
\<close>

fun colors_loop :: "env \<Rightarrow> pyval \<Rightarrow> pyval list \<Rightarrow> error + pyval list" where
  "colors_loop env value [] = Inr []"
| "colors_loop env value (item # items) =
     (case (if is_str value then Inr item
            else validate_types env item [''Gradient'', ''Pattern''] True) of
        Inl e \<Rightarrow> Inl e
      | Inr checked \<Rightarrow>
          (case colors_loop env value items of
             Inl e \<Rightarrow> Inl e
           | Inr rest \<Rightarrow> Inr (checked # rest)))"

definition TreemapOptions_colors_setter :: "env \<Rightarrow> treemap \<Rightarrow> pyval \<Rightarrow> error + treemap" where
  "TreemapOptions_colors_setter env self value =
     (if \<not> truthy value then Inr (self\<lparr>treemap_colors := PNone\<rparr>)
      else case validators_iterable value of
        Inl e \<Rightarrow> Inl e
      | Inr value1 \<Rightarrow>
          assign (colors_loop env value1 (py_iter value1))
            (\<lambda>checked_values. self\<lparr>treemap_colors := PList checked_values\<rparr>))"

text \<open>
  The builtin \<open>super\<close> called with one argument requires a type: \<open>super(T)\<close> gives an
  unbound super object for the class \<open>T\<close>, and \<open>super(obj)\<close> for an instance raises
  \<open>TypeError\<close> (argument 1 must be a type).
\<close>

datatype 'a super_arg = Class string | Instance 'a

fun super1 :: "'a super_arg \<Rightarrow> error + string" where
  "super1 (Class c) = Inr c"
| "super1 (Instance obj) = Inl TypeError"

definition TreemapOptions_untrimmed :: "treemap \<Rightarrow> pydict" where
  "TreemapOptions_untrimmed self =
          [
           (''animationLimit'', treemap_animation_limit self),
           (''boostBlending'', treemap_boost_blending self),
           (''boostThreshold'', treemap_boost_threshold self),
           (''colorAxis'', treemap_color_axis self),
           (''colorKey'', treemap_color_key self),
           (''colors'', treemap_colors self),
           (''cropThreshold'', treemap_crop_threshold self),
           (''findNearestPointBy'', treemap_find_nearest_point_by self),
           (''getExtremesForAll'', treemap_get_extremes_for_all self),
           (''ignoreHiddenPoint'', treemap_ignore_hidden_point self),
           (''linecap'', treemap_linecap self),
           (''lineWidth'', treemap_line_width self),
           (''negativeColor'', treemap_negative_color self),
           (''pointInterval'', treemap_point_interval self),
           (''pointIntervalUnit'', treemap_point_interval_unit self),
           (''pointStart'', treemap_point_start self),
           (''relativeXValue'', treemap_relative_x_value self),
           (''softThreshold'', treemap_soft_threshold self),
           (''stacking'', treemap_stacking self),
           (''step'', treemap_step self),
           (''zoneAxis'', treemap_zone_axis self),
           (''zones'', treemap_zones self),
           (''colorIndex'', treemap_color_index self),
           (''crisp'', treemap_crisp self),
           (''allowTraversingTree'', treemap_allow_traversing_tree self),
           (''breadcrumbs'', treemap_breadcrumbs self),
           (''colorByPoint'', treemap_color_by_point self),
           (''levelIsConstant'', treemap_level_is_constant self),
           (''levels'', treemap_levels self),
           (''alternateStartingDirection'', treemap_alternate_starting_direction self),
           (''interactByLeaf'', treemap_interact_by_leaf self),
           (''layoutAlgorithm'', treemap_layout_algorithm self),
           (''layoutStartingDirection'', treemap_layout_starting_direction self),
           (''sortIndex'', treemap_sort_index self)
          ]"

text \<open>
  \<open>TreemapOptions.to_dict\<close>: the untrimmed mapping is built first, then
  \<open>super(self).to_dict()\<close> is evaluated, then the merge loop and the trimming. The
  parent's \<open>to_dict\<close> is the argument \<open>parent_to_dict\<close>.
\<close>

definition TreemapOptions_to_dict ::
  "env \<Rightarrow> (treemap \<Rightarrow> error + pydict) \<Rightarrow> treemap \<Rightarrow> error + pydict" where
  "TreemapOptions_to_dict env parent_to_dict self =
     (let untrimmed = TreemapOptions_untrimmed self in
      case super1 (Instance self) of
        Inl e \<Rightarrow> Inl e
      | Inr parent_class \<Rightarrow>
          (case parent_to_dict self of
             Inl e \<Rightarrow> Inl e
           | Inr parent_as_dict \<Rightarrow> Inr (trim_dict env (merge_parent untrimmed parent_as_dict))))"

section \<open>A concrete environment\<close>

text \<open>
  An instance of the absent collaborators that follows the released library on the
  inputs used below. \<open>from_json\<close> reads JSON text: given a value that is no text, such
  as a mapping, it raises \<open>TypeError\<close>, as \<open>json.loads\<close> does, and given text that is
  not JSON it raises a decode error; no text used below is JSON. \<open>from_dict\<close> and the
  constructor take the mapping as the attributes of the new instance. The type check
  accepts an instance of the first listed class only, builds one from a mapping, and
  takes a string for JSON text. No string denotes a float, and an instance serializes
  to its attributes.
\<close>

definition json_text_only :: "pyval \<Rightarrow> error + pydict" where
  "json_text_only v = (case v of PStr s \<Rightarrow> Inl JSONDecodeError | _ \<Rightarrow> Inl TypeError)"

definition attrs_of_mapping :: "pyval \<Rightarrow> error + pydict" where
  "attrs_of_mapping v = (case v of PDict kvs \<Rightarrow> Inr kvs | _ \<Rightarrow> Inl HighchartsValueError)"

fun check_first_type :: "string list \<Rightarrow> pyval \<Rightarrow> error + pyval" where
  "check_first_type (t # ts) (PObj c a) =
     (if c = t then Inr (PObj c a) else Inl HighchartsValueError)"
| "check_first_type (t # ts) (PDict kvs) = Inr (PObj t kvs)"
| "check_first_type types (PStr s) = Inl JSONDecodeError"
| "check_first_type types v = Inl HighchartsValueError"

definition sample_env :: env where
  "sample_env =
     \<lparr>Gradient_from_json = json_text_only,
      Gradient_from_dict = attrs_of_mapping,
      Gradient_init = attrs_of_mapping,
      Pattern_from_json = json_text_only,
      Pattern_from_dict = attrs_of_mapping,
      Pattern_init = attrs_of_mapping,
      check_types = check_first_type,
      float_of_str = (\<lambda>s. None),
      entity_to_dict = (\<lambda>c a. a)\<rparr>"

section \<open>Reading a serialized field back\<close>

text \<open>
  What \<open>from_dict\<close> reads under a key of a trimmed mapping whose field held \<open>v\<close>:
  the trimmed form of \<open>v\<close>, or the default \<open>None\<close> when trimming dropped the key.
\<close>

definition serialized :: "env \<Rightarrow> pyval \<Rightarrow> pyval" where
  "serialized env v = (if is_empty (trim_value env v) then PNone else trim_value env v)"

text \<open>
  A stored value reads back through a setter when assigning its serialized form stores
  the same value again.
\<close>

definition reads_back ::
  "env \<Rightarrow> ('o \<Rightarrow> pyval \<Rightarrow> error + 'o) \<Rightarrow> ((pyval \<Rightarrow> pyval) \<Rightarrow> 'o \<Rightarrow> 'o) \<Rightarrow> pyval \<Rightarrow> bool" where
  "reads_back env setter update c =
     (\<forall>self. setter self (serialized env c) = Inr (update (\<lambda>_. c) self))"

text \<open>
  The fields of a \<open>Legend\<close> that are validated by code present in the sources (all
  but the nested entities, the two colors and the shadow) read back; \<open>x\<close> and \<open>y\<close>
  are \<open>None\<close>.
\<close>

definition Legend_fields_read_back :: "env \<Rightarrow> legend \<Rightarrow> bool" where
  "Legend_fields_read_back env self =
     (reads_back env Legend_align_setter legend_align_update (legend_align self)
      \<and> reads_back env Legend_align_columns_setter legend_align_columns_update (legend_align_columns self)
      \<and> reads_back env (Legend_border_width_setter env) legend_border_width_update (legend_border_width self)
      \<and> reads_back env (Legend_border_radius_setter env) legend_border_radius_update (legend_border_radius self)
      \<and> reads_back env Legend_class_name_setter legend_class_name_update (legend_class_name self)
      \<and> reads_back env Legend_enabled_setter legend_enabled_update (legend_enabled self)
      \<and> reads_back env Legend_floating_setter legend_floating_update (legend_floating self)
      \<and> reads_back env Legend_item_checkbox_style_setter legend_item_checkbox_style_update (legend_item_checkbox_style self)
      \<and> reads_back env (Legend_item_distance_setter env) legend_item_distance_update (legend_item_distance self)
      \<and> reads_back env Legend_item_hidden_style_setter legend_item_hidden_style_update (legend_item_hidden_style self)
      \<and> reads_back env Legend_item_hover_style_setter legend_item_hover_style_update (legend_item_hover_style self)
      \<and> reads_back env (Legend_item_margin_bottom_setter env) legend_item_margin_bottom_update (legend_item_margin_bottom self)
      \<and> reads_back env (Legend_item_margin_top_setter env) legend_item_margin_top_update (legend_item_margin_top self)
      \<and> reads_back env Legend_item_style_setter legend_item_style_update (legend_item_style self)
      \<and> reads_back env (Legend_item_width_setter env) legend_item_width_update (legend_item_width self)
      \<and> reads_back env Legend_label_format_setter legend_label_format_update (legend_label_format self)
      \<and> reads_back env Legend_layout_setter legend_layout_update (legend_layout self)
      \<and> reads_back env (Legend_margin_setter env) legend_margin_update (legend_margin self)
      \<and> reads_back env (Legend_max_height_setter env) legend_max_height_update (legend_max_height self)
      \<and> reads_back env (Legend_padding_setter env) legend_padding_update (legend_padding self)
      \<and> reads_back env Legend_reversed_setter legend_reversed_update (legend_reversed self)
      \<and> reads_back env Legend_rtl_setter legend_rtl_update (legend_rtl self)
      \<and> reads_back env Legend_square_symbol_setter legend_square_symbol_update (legend_square_symbol self)
      \<and> reads_back env (Legend_symbol_height_setter env) legend_symbol_height_update (legend_symbol_height self)
      \<and> reads_back env (Legend_symbol_padding_setter env) legend_symbol_padding_update (legend_symbol_padding self)
      \<and> reads_back env (Legend_symbol_radius_setter env) legend_symbol_radius_update (legend_symbol_radius self)
      \<and> reads_back env (Legend_symbol_width_setter env) legend_symbol_width_update (legend_symbol_width self)
      \<and> reads_back env Legend_use_html_setter legend_use_html_update (legend_use_html self)
      \<and> reads_back env Legend_vertical_align_setter legend_vertical_align_update (legend_vertical_align self)
      \<and> reads_back env (Legend_width_setter env) legend_width_update (legend_width self)
      \<and> legend_x self = PNone \<and> legend_y self = PNone)"

section \<open>Concrete inputs\<close>

text \<open>The inputs at which the theorems below are exercised.\<close>

definition sample_gradient_mapping :: pydict where
  "sample_gradient_mapping =
     [(''linearGradient'',
         PDict [(''x1'', PInt 0), (''x2'', PInt 0), (''y1'', PInt 0), (''y2'', PInt 1)]),
      (''stops'', PList [PList [PInt 0, PStr ''#003399''], PList [PInt 1, PStr ''#3366AA'']])]"

definition sample_zone_kwargs :: pydict where
  "sample_zone_kwargs =
     [(''class_name'', PStr ''warm''),
      (''color'', PObj ''Gradient'' sample_gradient_mapping),
      (''dash_style'', PStr ''ShortDash''),
      (''value'', PInt 10)]"

definition sample_zone :: zone where
  "sample_zone =
     \<lparr>zone_class_name = PStr ''warm'', zone_color = PObj ''Gradient'' sample_gradient_mapping,
      zone_dash_style = PStr ''ShortDash'', zone_fill_color = PNone, zone_value = PInt 10\<rparr>"

definition sample_heatmap :: heatmap where
  "sample_heatmap =
     \<lparr>heatmap_border_radius = PInt 3, heatmap_colsize = PInt 1,
      heatmap_null_color = PNone, heatmap_point_padding = PNone, heatmap_rowsize = PNone\<rparr>"

section \<open>Properties\<close>

subsection \<open>Plain color strings\<close>

text \<open>
  Claim C1. The claim: a color setter given a plain, non-empty color string that holds
  neither \<open>linearGradient\<close> nor \<open>patternOptions\<close>, such as \<open>#FF0000\<close>, stores the
  string unchanged. The code does not: such a string matches none of the branches of the
  resolver and reaches the final \<open>raise\<close>, so the setter raises
  \<open>HighchartsValueError\<close> and stores nothing. This holds whatever the absent
  \<open>Gradient\<close> and \<open>Pattern\<close> classes do.
\<close>

theorem color_setter_rejects_plain_string:
  assumes "s \<noteq> []"
    and "\<not> str_contains ''linearGradient'' s"
    and "\<not> str_contains ''patternOptions'' s"
  shows "resolve_color env (PStr s) = Inl HighchartsValueError
       \<and> Legend_background_color_setter env self (PStr s) = Inl HighchartsValueError
       \<and> Zone_color_setter env z (PStr s) = Inl HighchartsValueError"
  using assms
  by (simp add: resolve_color_def Legend_background_color_setter_def Zone_color_setter_def
      assign_def)

theorem color_setter_rejects_plain_string_witness:
  "resolve_color sample_env (PStr ''#FF0000'') = Inl HighchartsValueError
   \<and> Legend_background_color_setter sample_env Legend_new (PStr ''#FF0000'')
       = Inl HighchartsValueError
   \<and> Zone_color_setter sample_env Zone_new (PStr ''#FF0000'') = Inl HighchartsValueError"
  using color_setter_rejects_plain_string [of "''#FF0000''" sample_env Legend_new Zone_new]
  by simp

subsection \<open>One resolver for every color field\<close>

text \<open>
  Claim C4. The claim: any two color fields accept the same inputs and store equal
  values. \<open>HoverState.color\<close> and \<open>SelectState.color\<close> do not behave as \<open>Zone.color\<close>
  does: their setter in force is the second definition, the plain string validator. A
  \<open>Gradient\<close> instance is stored by \<open>Zone.color\<close> and refused by the other two; the
  string \<open>#FF0000\<close> is refused by \<open>Zone.color\<close> and stored by the other two.
\<close>

theorem shadowing_color_setters_diverge:
  "Zone_color_setter env z (PObj ''Gradient'' a) = Inr (z\<lparr>zone_color := PObj ''Gradient'' a\<rparr>)
   \<and> HoverState_color_setter h (PObj ''Gradient'' a) = Inl CannotCoerceError
   \<and> SelectState_color_setter s (PObj ''Gradient'' a) = Inl CannotCoerceError
   \<and> Zone_color_setter env z (PStr ''#FF0000'') = Inl HighchartsValueError
   \<and> HoverState_color_setter h (PStr ''#FF0000'') = Inr (h\<lparr>hover_color := PStr ''#FF0000''\<rparr>)
   \<and> SelectState_color_setter s (PStr ''#FF0000'')
       = Inr (s\<lparr>select_color := PStr ''#FF0000''\<rparr>)"
  by (simp add: Zone_color_setter_def HoverState_color_setter_def SelectState_color_setter_def
      resolve_color_def validators_string_def assign_def)

subsection \<open>TreemapOptions.to_dict\<close>

text \<open>
  Claim C8. For every \<open>TreemapOptions\<close> instance, and whatever the parent's \<open>to_dict\<close>
  would return, \<open>to_dict\<close> returns no mapping: \<open>super(self)\<close> raises \<open>TypeError\<close>
  before the merge and the trimming.
\<close>

theorem treemap_to_dict_raises:
  "TreemapOptions_to_dict env parent_to_dict self = Inl TypeError"
  by (simp add: TreemapOptions_to_dict_def)

subsection \<open>Truthiness guards\<close>

text \<open>
  Claim C10. A setter guarded by \<open>if not value\<close> stores \<open>None\<close> for every falsy input:
  \<open>Legend.width\<close> given \<open>0\<close> stores \<open>None\<close>, and \<open>Legend.align\<close> and the color fields
  given the empty string store \<open>None\<close> and do not raise. \<open>Legend.enabled\<close>, guarded by
  \<open>if value is None\<close>, keeps \<open>False\<close>.
\<close>

theorem falsy_input_stores_None:
  "(\<not> truthy v \<longrightarrow>
      Legend_width_setter env self v = Inr (self\<lparr>legend_width := PNone\<rparr>)
    \<and> Legend_align_setter self v = Inr (self\<lparr>legend_align := PNone\<rparr>)
    \<and> Legend_background_color_setter env self v = Inr (self\<lparr>legend_background_color := PNone\<rparr>)
    \<and> resolve_color env v = Inr PNone)
   \<and> Legend_width_setter env self (PInt 0) = Inr (self\<lparr>legend_width := PNone\<rparr>)
   \<and> Legend_align_setter self (PStr []) = Inr (self\<lparr>legend_align := PNone\<rparr>)
   \<and> Legend_enabled_setter self (PBool False) = Inr (self\<lparr>legend_enabled := PBool False\<rparr>)"
  by (simp add: Legend_width_setter_def Legend_align_setter_def
      Legend_background_color_setter_def Legend_enabled_setter_def resolve_color_def assign_def)

theorem falsy_input_stores_None_witness:
  "\<not> truthy (PFloat 0)
   \<and> Legend_width_setter sample_env Legend_new (PFloat 0) = Inr (Legend_new\<lparr>legend_width := PNone\<rparr>)
   \<and> Legend_background_color_setter sample_env Legend_new (PFloat 0)
       = Inr (Legend_new\<lparr>legend_background_color := PNone\<rparr>)"
  using falsy_input_stores_None [of "PFloat 0" sample_env Legend_new]
  by simp

subsection \<open>Gradient mappings and instances\<close>

lemma resolve_color_gradient_mapping:
  assumes "dict_has ''linearGradient'' (PDict d)"
  shows "resolve_color env (PDict d) =
     (case Gradient_from_json env (PDict d) of
        Inr a \<Rightarrow> Inr (PObj ''Gradient'' a)
      | Inl e \<Rightarrow> if is_ValueError e then construct ''Gradient'' (Gradient_from_dict env (PDict d))
                 else Inl e)"
proof -
  from assms have "d \<noteq> []" by auto
  with assms show ?thesis
    by (simp add: resolve_color_def construct_def split: sum.splits)
qed

text \<open>
  Claim C6. The claim: a mapping that holds the key \<open>linearGradient\<close> resolves to a
  \<open>Gradient\<close> instance. The setter passes the mapping to \<open>Gradient.from_json\<close> first
  and catches \<open>ValueError\<close> only; an error of \<open>from_json\<close> that is no \<open>ValueError\<close>
  leaves the resolver and the setter as it is, and nothing is stored: the branch that
  would build the \<open>Gradient\<close> from the mapping is not reached. \<open>from_json\<close> reads JSON
  text and raises \<open>TypeError\<close> on a mapping. The other two parts of the claim hold: the
  gradient key is tested before the pattern key (the result below does not depend on
  \<open>patternOptions\<close>), and a \<open>Gradient\<close> or \<open>Pattern\<close> instance is stored unchanged.
\<close>

theorem gradient_mapping_from_json_error_propagates:
  "(dict_has ''linearGradient'' (PDict d) \<longrightarrow>
    Gradient_from_json env (PDict d) = Inl e \<longrightarrow> \<not> is_ValueError e \<longrightarrow>
      resolve_color env (PDict d) = Inl e
    \<and> Zone_color_setter env z (PDict d) = Inl e
    \<and> HoverState_border_color_setter env h (PDict d) = Inl e)
   \<and> (isinstance v [''Gradient'', ''Pattern''] \<longrightarrow>
        resolve_color env v = Inr v
      \<and> Zone_color_setter env z v = Inr (z\<lparr>zone_color := v\<rparr>)
      \<and> HoverState_border_color_setter env h v = Inr (h\<lparr>hover_border_color := v\<rparr>))"
proof (intro conjI impI)
  assume "dict_has ''linearGradient'' (PDict d)" "Gradient_from_json env (PDict d) = Inl e"
    "\<not> is_ValueError e"
  then show r: "resolve_color env (PDict d) = Inl e"
    by (simp add: resolve_color_gradient_mapping)
  then show "Zone_color_setter env z (PDict d) = Inl e"
    "HoverState_border_color_setter env h (PDict d) = Inl e"
    by (simp_all add: Zone_color_setter_def HoverState_border_color_setter_def assign_def)
next
  assume "isinstance v [''Gradient'', ''Pattern'']"
  then show "resolve_color env v = Inr v"
    by (cases v) (auto simp: resolve_color_def)
  then show "Zone_color_setter env z v = Inr (z\<lparr>zone_color := v\<rparr>)"
    "HoverState_border_color_setter env h v = Inr (h\<lparr>hover_border_color := v\<rparr>)"
    by (simp_all add: Zone_color_setter_def HoverState_border_color_setter_def assign_def)
qed

theorem gradient_mapping_from_json_error_propagates_witness:
  "dict_has ''linearGradient'' (PDict sample_gradient_mapping)
   \<and> Gradient_from_json sample_env (PDict sample_gradient_mapping) = Inl TypeError
   \<and> \<not> is_ValueError TypeError
   \<and> resolve_color sample_env (PDict sample_gradient_mapping) = Inl TypeError
   \<and> Zone_color_setter sample_env Zone_new (PDict sample_gradient_mapping) = Inl TypeError
   \<and> HoverState_border_color_setter sample_env HoverState_new (PDict sample_gradient_mapping)
       = Inl TypeError
   \<and> isinstance (PObj ''Pattern'' []) [''Gradient'', ''Pattern'']
   \<and> Zone_color_setter sample_env Zone_new (PObj ''Pattern'' [])
       = Inr (Zone_new\<lparr>zone_color := PObj ''Pattern'' []\<rparr>)"
  using gradient_mapping_from_json_error_propagates
    [of sample_gradient_mapping sample_env TypeError Zone_new HoverState_new "PObj ''Pattern'' []"]
  by (simp add: sample_env_def sample_gradient_mapping_def json_text_only_def)

subsection \<open>Enum setters\<close>

lemma PStr_mem_map: "PStr s \<in> set (map PStr xs) \<longleftrightarrow> s \<in> set xs"
  by auto

text \<open>
  Claim C7, as amended. The claim: every enum setter lower-cases a non-empty input before
  matching, rejects what is outside the allowed set, and stores an allowed value given
  in another case in lower case. That holds for \<open>Legend.align\<close>, \<open>Legend.layout\<close>,
  \<open>Legend.vertical_align\<close> and \<open>SankeyOptions.link_color_mode\<close>. \<open>Zone.dash_style\<close>
  does not lower-case: it matches the input as given against the supported values and
  stores it unchanged.
\<close>

theorem enum_setters_match:
  assumes "s \<noteq> []"
  shows "Legend_align_setter self (PStr s) =
           (if lower s \<in> {''left'', ''center'', ''right''}
            then Inr (self\<lparr>legend_align := PStr (lower s)\<rparr>)
            else Inl HighchartsValueError)
       \<and> Legend_layout_setter self (PStr s) =
           (if lower s \<in> {''horizontal'', ''vertical'', ''proximate''}
            then Inr (self\<lparr>legend_layout := PStr (lower s)\<rparr>)
            else Inl HighchartsValueError)
       \<and> Legend_vertical_align_setter self (PStr s) =
           (if lower s \<in> {''bottom'', ''middle'', ''top''}
            then Inr (self\<lparr>legend_vertical_align := PStr (lower s)\<rparr>)
            else Inl HighchartsValueError)
       \<and> SankeyOptions_link_color_mode_setter k (PStr s) =
           (if lower s \<in> {''from'', ''gradient'', ''to''}
            then Inr (k\<lparr>sankey_link_color_mode := PStr (lower s)\<rparr>)
            else Inl HighchartsValueError)
       \<and> Zone_dash_style_setter z (PStr s) =
           (if s \<in> set SUPPORTED_DASH_STYLE_VALUES
            then Inr (z\<lparr>zone_dash_style := PStr s\<rparr>)
            else Inl HighchartsValueError)"
  using assms
  by (simp add: Legend_align_setter_def Legend_layout_setter_def
      Legend_vertical_align_setter_def SankeyOptions_link_color_mode_setter_def
      Zone_dash_style_setter_def validators_string_def PStr_mem_map del: set_map)

theorem enum_setters_match_witness:
  "Legend_align_setter Legend_new (PStr ''LEFT'') = Inr (Legend_new\<lparr>legend_align := PStr ''left''\<rparr>)
   \<and> Legend_align_setter Legend_new (PStr ''diagonal'') = Inl HighchartsValueError
   \<and> Zone_dash_style_setter Zone_new (PStr ''ShortDash'')
       = Inr (Zone_new\<lparr>zone_dash_style := PStr ''ShortDash''\<rparr>)"
  using enum_setters_match [of "''LEFT''" Legend_new _ Zone_new]
    enum_setters_match [of "''diagonal''" Legend_new _ Zone_new]
    enum_setters_match [of "''ShortDash''" Legend_new _ Zone_new]
  by (simp add: lower_def lower_char_def SUPPORTED_DASH_STYLE_VALUES_def)

text \<open>
  Claim C7 as stated fails for \<open>Zone.dash_style\<close>: the allowed value \<open>Dash\<close> is stored
  as \<open>Dash\<close>, not in lower case, and the same word in another case is rejected.
\<close>

theorem dash_style_case_sensitive:
  "Zone_dash_style_setter Zone_new (PStr ''Dash'') = Inr (Zone_new\<lparr>zone_dash_style := PStr ''Dash''\<rparr>)
   \<and> lower ''Dash'' \<noteq> ''Dash''
   \<and> Zone_dash_style_setter Zone_new (PStr ''DASH'') = Inl HighchartsValueError
   \<and> Zone_dash_style_setter Zone_new (PStr ''dash'') = Inl HighchartsValueError"
  by (simp add: Zone_dash_style_setter_def validators_string_def SUPPORTED_DASH_STYLE_VALUES_def
      lower_def lower_char_def)

subsection \<open>TreemapOptions.colors\<close>

lemma colors_loop_not_str:
  "\<not> is_str value \<Longrightarrow>
   colors_loop env value (item # items) =
     (case validate_types env item [''Gradient'', ''Pattern''] True of
        Inl e \<Rightarrow> Inl e
      | Inr checked \<Rightarrow>
          (case colors_loop env value items of
             Inl e \<Rightarrow> Inl e
           | Inr rest \<Rightarrow> Inr (checked # rest)))"
  by simp

lemma colors_loop_rejects:
  assumes "\<not> is_str value" and "x \<in> set items"
    and "validate_types env x [''Gradient'', ''Pattern''] True = Inl e"
  shows "\<exists>e'. colors_loop env value items = Inl e'"
  using assms(2,3)
proof (induction items)
  case Nil
  then show ?case by simp
next
  case (Cons item items)
  show ?case
  proof (cases "validate_types env item [''Gradient'', ''Pattern''] True")
    case (Inl e1)
    with assms(1) show ?thesis by simp
  next
    case (Inr checked)
    with Cons.prems have "x \<in> set items" by auto
    with Cons.IH Cons.prems obtain e' where "colors_loop env value items = Inl e'" by blast
    with Inr assms(1) show ?thesis by simp
  qed
qed

lemma colors_loop_all_checked:
  assumes "\<not> is_str value"
  shows "colors_loop env value items = Inr ys \<Longrightarrow>
     list_all2 (\<lambda>item y. validate_types env item [''Gradient'', ''Pattern''] True = Inr y) items ys"
  using assms
  by (induction items arbitrary: ys) (auto split: sum.splits)

text \<open>
  Claim C9. For a non-empty list assigned to \<open>TreemapOptions.colors\<close>, the string test
  of the loop never holds (it looks at the list), so every item, a string included, goes
  through \<open>validate_types\<close> with the types \<open>Gradient\<close> and \<open>Pattern\<close>: what is stored
  is the list of its results, and a list that holds a string which that check rejects is
  rejected as a whole, nothing being stored.
\<close>

theorem treemap_colors_items_type_checked:
  assumes "xs \<noteq> []"
  shows "TreemapOptions_colors_setter env self (PList xs) =
           assign (colors_loop env (PList xs) xs)
             (\<lambda>checked_values. self\<lparr>treemap_colors := PList checked_values\<rparr>)
       \<and> (\<forall>self'. TreemapOptions_colors_setter env self (PList xs) = Inr self' \<longrightarrow>
             (\<exists>ys. treemap_colors self' = PList ys
                \<and> list_all2 (\<lambda>item y. validate_types env item [''Gradient'', ''Pattern''] True = Inr y)
                     xs ys))
       \<and> (\<forall>s e. PStr s \<in> set xs
             \<longrightarrow> validate_types env (PStr s) [''Gradient'', ''Pattern''] True = Inl e
             \<longrightarrow> (\<exists>e'. TreemapOptions_colors_setter env self (PList xs) = Inl e'))"
proof (intro conjI allI impI)
  show eq: "TreemapOptions_colors_setter env self (PList xs) =
           assign (colors_loop env (PList xs) xs)
             (\<lambda>checked_values. self\<lparr>treemap_colors := PList checked_values\<rparr>)"
    using assms by (simp add: TreemapOptions_colors_setter_def)
  {
    fix self' assume "TreemapOptions_colors_setter env self (PList xs) = Inr self'"
    with eq obtain ys where ys: "colors_loop env (PList xs) xs = Inr ys"
      and s: "self' = self\<lparr>treemap_colors := PList ys\<rparr>"
      by (auto simp: assign_def split: sum.splits)
    from colors_loop_all_checked [OF _ ys] s
    show "\<exists>ys. treemap_colors self' = PList ys
                \<and> list_all2 (\<lambda>item y. validate_types env item [''Gradient'', ''Pattern''] True = Inr y)
                     xs ys"
      by auto
  }
  {
    fix s e assume "PStr s \<in> set xs"
      "validate_types env (PStr s) [''Gradient'', ''Pattern''] True = Inl e"
    from colors_loop_rejects [OF _ this, of "PList xs"]
    obtain e' where "colors_loop env (PList xs) xs = Inl e'" by auto
    with eq show "\<exists>e'. TreemapOptions_colors_setter env self (PList xs) = Inl e'"
      by (simp add: assign_def)
  }
qed

theorem treemap_colors_items_type_checked_witness:
  "validate_types sample_env (PStr ''#FF0000'') [''Gradient'', ''Pattern''] True
     = Inl JSONDecodeError
   \<and> TreemapOptions_colors_setter sample_env TreemapOptions_new
         (PList [PObj ''Gradient'' [], PStr ''#FF0000'']) = Inl JSONDecodeError
   \<and> TreemapOptions_colors_setter sample_env TreemapOptions_new (PList [PObj ''Gradient'' []])
       = Inr (TreemapOptions_new\<lparr>treemap_colors := PList [PObj ''Gradient'' []]\<rparr>)"
  using treemap_colors_items_type_checked
      [of "[PObj ''Gradient'' [], PStr ''#FF0000'']" sample_env TreemapOptions_new]
    treemap_colors_items_type_checked
      [of "[PObj ''Gradient'' []]" sample_env TreemapOptions_new]
  by (simp add: assign_def validate_types_def sample_env_def)

subsection \<open>Sequences of setters, keyword arguments\<close>

lemma run_setters_invariant:
  assumes "run_setters self fs = Inr self'" and "P self"
    and "\<And>f s s'. f \<in> set fs \<Longrightarrow> P s \<Longrightarrow> f s = Inr s' \<Longrightarrow> P s'"
  shows "P self'"
  using assms
proof (induction fs arbitrary: self)
  case Nil
  then show ?case by simp
next
  case (Cons f fs)
  from Cons.prems(1) obtain s1 where s1: "f self = Inr s1" and rest: "run_setters s1 fs = Inr self'"
    by (auto split: sum.splits)
  have "P s1" using Cons.prems(3) [of f self s1] Cons.prems(2) s1 by simp
  show ?case
  proof (rule Cons.IH [OF rest \<open>P s1\<close>])
    fix g s s' assume "g \<in> set fs" "P s" "g s = Inr s'"
    then show "P s'" using Cons.prems(3) [of g s s'] by simp
  qed
qed

lemmas Legend_setter_defs =
  Legend_accessibility_setter_def Legend_align_setter_def Legend_align_columns_setter_def
  Legend_background_color_setter_def Legend_border_color_setter_def
  Legend_border_width_setter_def Legend_border_radius_setter_def
  Legend_bubble_legend_setter_def Legend_class_name_setter_def Legend_enabled_setter_def
  Legend_floating_setter_def Legend_item_checkbox_style_setter_def
  Legend_item_distance_setter_def Legend_item_hidden_style_setter_def
  Legend_item_hover_style_setter_def Legend_item_margin_bottom_setter_def
  Legend_item_margin_top_setter_def Legend_item_style_setter_def Legend_item_width_setter_def
  Legend_label_format_setter_def Legend_label_formatter_setter_def Legend_layout_setter_def
  Legend_margin_setter_def Legend_max_height_setter_def Legend_navigation_setter_def
  Legend_padding_setter_def Legend_reversed_setter_def Legend_rtl_setter_def
  Legend_shadow_setter_def Legend_square_symbol_setter_def Legend_symbol_height_setter_def
  Legend_symbol_padding_setter_def Legend_symbol_radius_setter_def
  Legend_symbol_width_setter_def Legend_title_setter_def Legend_use_html_setter_def
  Legend_vertical_align_setter_def Legend_width_setter_def Legend_x_setter_def
  Legend_y_setter_def

lemma pop_Nil: "pop [] k d = d"
  by (simp add: pop_def)

lemma pop_Cons: "pop ((k', v) # kvs) k d = (if k' = k then v else pop kvs k d)"
  by (simp add: pop_def)

subsection \<open>Merging with the parent mapping\<close>

lemma map_of_dict_set:
  "map_of (dict_set d key v) k = (if k = key then Some v else map_of d k)"
  by (induction d key v rule: dict_set.induct) auto

lemma keys_dict_set:
  "map fst (dict_set d key v) = (if key \<in> fst ` set d then map fst d else map fst d @ [key])"
  by (induction d key v rule: dict_set.induct) auto

lemma distinct_dict_set:
  "distinct (map fst d) \<Longrightarrow> distinct (map fst (dict_set d key v))"
  by (simp add: keys_dict_set)

lemma map_of_merge_loop:
  "map_of (merge_loop p keys u) k =
     (if k \<in> set keys then Some (pop p k PNone) else map_of u k)"
  by (induction keys arbitrary: u) (auto simp: map_of_dict_set)

lemma distinct_merge_loop:
  "distinct (map fst u) \<Longrightarrow> distinct (map fst (merge_loop p keys u))"
  by (induction keys arbitrary: u) (auto simp: distinct_dict_set)

lemma map_of_merge_parent:
  "map_of (merge_parent u p) k =
     (case map_of p k of Some v \<Rightarrow> Some v | None \<Rightarrow> map_of u k)"
proof (cases "map_of p k")
  case None
  then have "k \<notin> set (map fst p)" by (simp add: map_of_eq_None_iff)
  with None show ?thesis by (simp add: merge_parent_def map_of_merge_loop)
next
  case (Some v)
  then have "k \<in> set (map fst p)" by (metis map_of_eq_None_iff option.distinct(1) set_map)
  with Some show ?thesis by (simp add: merge_parent_def map_of_merge_loop pop_def)
qed

lemma keys_trim_dict: "k \<in> fst ` set (trim_dict env d) \<Longrightarrow> k \<in> fst ` set d"
proof (induction d)
  case Nil
  then show ?case by simp
next
  case (Cons kv d)
  obtain k' v where kv: "kv = (k', v)" by (cases kv)
  from Cons.prems have "k = k' \<or> k \<in> fst ` set (trim_dict env d)"
    by (auto simp: kv split: if_splits)
  with Cons.IH show ?case by (auto simp: kv)
qed

lemma map_of_trim_dict:
  "distinct (map fst d) \<Longrightarrow>
   map_of (trim_dict env d) k =
     (case map_of d k of
        None \<Rightarrow> None
      | Some v \<Rightarrow> if is_empty (trim_value env v) then None else Some (trim_value env v))"
proof (induction d)
  case Nil
  then show ?case by simp
next
  case (Cons kv d)
  obtain k' v where kv: "kv = (k', v)" by (cases kv)
  from Cons.prems kv have nk: "k' \<notin> fst ` set d" and dd: "distinct (map fst d)" by auto
  from nk keys_trim_dict [of k' env d] have "k' \<notin> fst ` set (trim_dict env d)" by blast
  then have none: "map_of (trim_dict env d) k' = None" by (simp add: map_of_eq_None_iff)
  show ?case using Cons.IH [OF dd] none by (simp add: kv)
qed

lemma trim_dict_no_empty: "(k, v) \<in> set (trim_dict env d) \<Longrightarrow> \<not> is_empty v"
  by (induction d) (auto split: if_splits)

lemma pop_trim_dict:
  "distinct (map fst d) \<Longrightarrow>
   pop (trim_dict env d) k PNone =
     (case map_of d k of None \<Rightarrow> PNone | Some v \<Rightarrow> serialized env v)"
  by (simp add: pop_def map_of_trim_dict serialized_def split: option.splits)

lemma map_of_composed_to_dict:
  "map_of (SankeyOptions_to_untrimmed_dict k parent_as_dict) key =
     (case map_of parent_as_dict key of
        Some v \<Rightarrow> Some v
      | None \<Rightarrow> map_of [(''linkColorMode'', sankey_link_color_mode k)] key)
   \<and> map_of (HeatmapOptions_to_dict env h parent_as_dict) key =
     (case (case map_of parent_as_dict key of
              Some v \<Rightarrow> Some v
            | None \<Rightarrow> map_of (HeatmapOptions_untrimmed h) key) of
        None \<Rightarrow> None
      | Some v \<Rightarrow> if is_empty (trim_value env v) then None else Some (trim_value env v))"
proof
  show "map_of (SankeyOptions_to_untrimmed_dict k parent_as_dict) key =
     (case map_of parent_as_dict key of
        Some v \<Rightarrow> Some v
      | None \<Rightarrow> map_of [(''linkColorMode'', sankey_link_color_mode k)] key)"
    unfolding SankeyOptions_to_untrimmed_dict_def by (rule map_of_merge_parent)
next
  have "distinct (map fst (HeatmapOptions_untrimmed h))"
    by (simp add: HeatmapOptions_untrimmed_def)
  then have "distinct (map fst (merge_parent (HeatmapOptions_untrimmed h) parent_as_dict))"
    unfolding merge_parent_def by (rule distinct_merge_loop)
  then show "map_of (HeatmapOptions_to_dict env h parent_as_dict) key =
     (case (case map_of parent_as_dict key of
              Some v \<Rightarrow> Some v
            | None \<Rightarrow> map_of (HeatmapOptions_untrimmed h) key) of
        None \<Rightarrow> None
      | Some v \<Rightarrow> if is_empty (trim_value env v) then None else Some (trim_value env v))"
    unfolding HeatmapOptions_to_dict_def by (simp only: map_of_trim_dict map_of_merge_parent)
qed

text \<open>
  Claim C2. The claim: a composed class merges its own mapping with the parent's so that
  the child's value appears under a colliding key, and trims once at the end.
  \<open>HeatmapOptions.to_dict\<close> and \<open>SankeyOptions._to_untrimmed_dict\<close> do so: the parent
  computes its mapping from the same object, and where its entry for a key of the child
  agrees with the child's (for \<open>HeatmapOptions\<close>, whose parent trims, up to trimming)
  the output holds the child's value, a key of the parent alone is carried over, and
  \<open>HeatmapOptions.to_dict\<close> trims the merged mapping. \<open>TreemapOptions.to_dict\<close> does
  not: it returns no mapping at all, whatever the parent's mapping would be.
\<close>

theorem composed_to_dict_child_value:
  "((\<forall>key vp vc. map_of parent_as_dict key = Some vp \<longrightarrow>
        map_of (HeatmapOptions_untrimmed h) key = Some vc \<longrightarrow>
        trim_value env vp = trim_value env vc) \<longrightarrow>
      (\<forall>key vc. map_of (HeatmapOptions_untrimmed h) key = Some vc \<longrightarrow>
         map_of (HeatmapOptions_to_dict env h parent_as_dict) key =
           (if is_empty (trim_value env vc) then None else Some (trim_value env vc)))
    \<and> (\<forall>key vp. map_of parent_as_dict key = Some vp \<longrightarrow>
         map_of (HeatmapOptions_untrimmed h) key = None \<longrightarrow>
         map_of (HeatmapOptions_to_dict env h parent_as_dict) key =
           (if is_empty (trim_value env vp) then None else Some (trim_value env vp))))
   \<and> ((\<forall>vp. map_of sankey_parent ''linkColorMode'' = Some vp \<longrightarrow>
          vp = sankey_link_color_mode k) \<longrightarrow>
      map_of (SankeyOptions_to_untrimmed_dict k sankey_parent) ''linkColorMode''
        = Some (sankey_link_color_mode k))
   \<and> TreemapOptions_to_dict env parent_to_dict t = Inl TypeError"
proof (intro conjI impI allI)
  fix key vc
  assume agree: "\<forall>key vp vc. map_of parent_as_dict key = Some vp \<longrightarrow>
        map_of (HeatmapOptions_untrimmed h) key = Some vc \<longrightarrow>
        trim_value env vp = trim_value env vc"
    and vc: "map_of (HeatmapOptions_untrimmed h) key = Some vc"
  show "map_of (HeatmapOptions_to_dict env h parent_as_dict) key =
      (if is_empty (trim_value env vc) then None else Some (trim_value env vc))"
  proof (cases "map_of parent_as_dict key")
    case None
    with vc show ?thesis
      using map_of_composed_to_dict [of _ parent_as_dict key env h] by simp
  next
    case (Some vp)
    with agree vc have "trim_value env vp = trim_value env vc" by blast
    with Some show ?thesis
      using map_of_composed_to_dict [of _ parent_as_dict key env h] by simp
  qed
next
  fix key vp
  assume "map_of parent_as_dict key = Some vp"
  then show "map_of (HeatmapOptions_to_dict env h parent_as_dict) key =
      (if is_empty (trim_value env vp) then None else Some (trim_value env vp))"
    using map_of_composed_to_dict [of _ parent_as_dict key env h] by simp
next
  assume "\<forall>vp. map_of sankey_parent ''linkColorMode'' = Some vp \<longrightarrow>
      vp = sankey_link_color_mode k"
  then show "map_of (SankeyOptions_to_untrimmed_dict k sankey_parent) ''linkColorMode''
      = Some (sankey_link_color_mode k)"
    using map_of_composed_to_dict [of k sankey_parent "''linkColorMode''"]
    by (cases "map_of sankey_parent ''linkColorMode''") simp_all
next
  show "TreemapOptions_to_dict env parent_to_dict t = Inl TypeError"
    by (simp add: TreemapOptions_to_dict_def)
qed

theorem composed_to_dict_child_value_witness:
  "map_of (HeatmapOptions_untrimmed sample_heatmap) ''borderRadius'' = Some (PInt 3)
   \<and> map_of (HeatmapOptions_to_dict sample_env sample_heatmap
             [(''borderRadius'', PInt 3), (''visible'', PBool True)]) ''borderRadius''
       = Some (PInt 3)
   \<and> map_of (HeatmapOptions_to_dict sample_env sample_heatmap
             [(''borderRadius'', PInt 3), (''visible'', PBool True)]) ''colsize''
       = Some (PInt 1)
   \<and> map_of (HeatmapOptions_to_dict sample_env sample_heatmap
             [(''borderRadius'', PInt 3), (''visible'', PBool True)]) ''visible''
       = Some (PBool True)
   \<and> map_of (SankeyOptions_to_untrimmed_dict \<lparr>sankey_link_color_mode = PStr ''from''\<rparr>
             [(''linkColorMode'', PStr ''from''), (''nodeWidth'', PInt 20)]) ''linkColorMode''
       = Some (PStr ''from'')
   \<and> TreemapOptions_to_dict sample_env (\<lambda>self. Inr []) TreemapOptions_new = Inl TypeError"
proof -
  let ?p = "[(''borderRadius'', PInt 3), (''visible'', PBool True)]"
  let ?q = "[(''linkColorMode'', PStr ''from''), (''nodeWidth'', PInt 20)]"
  let ?k = "\<lparr>sankey_link_color_mode = PStr ''from''\<rparr>"
  have agree: "\<forall>key vp vc. map_of ?p key = Some vp \<longrightarrow>
        map_of (HeatmapOptions_untrimmed sample_heatmap) key = Some vc \<longrightarrow>
        trim_value sample_env vp = trim_value sample_env vc"
    by (auto simp: HeatmapOptions_untrimmed_def sample_heatmap_def split: if_splits)
  have agree': "\<forall>vp. map_of ?q ''linkColorMode'' = Some vp \<longrightarrow> vp = sankey_link_color_mode ?k"
    by simp
  note main = composed_to_dict_child_value
    [of ?p sample_heatmap sample_env ?q ?k "\<lambda>self. Inr []" TreemapOptions_new]
  from main agree have h1: "\<forall>key vc. map_of (HeatmapOptions_untrimmed sample_heatmap) key = Some vc \<longrightarrow>
         map_of (HeatmapOptions_to_dict sample_env sample_heatmap ?p) key =
           (if is_empty (trim_value sample_env vc) then None else Some (trim_value sample_env vc))"
    and h2: "\<forall>key vp. map_of ?p key = Some vp \<longrightarrow>
         map_of (HeatmapOptions_untrimmed sample_heatmap) key = None \<longrightarrow>
         map_of (HeatmapOptions_to_dict sample_env sample_heatmap ?p) key =
           (if is_empty (trim_value sample_env vp) then None else Some (trim_value sample_env vp))"
    by blast+
  from main agree' have h3: "map_of (SankeyOptions_to_untrimmed_dict ?k ?q) ''linkColorMode''
        = Some (sankey_link_color_mode ?k)"
    and h4: "TreemapOptions_to_dict sample_env (\<lambda>self. Inr []) TreemapOptions_new = Inl TypeError"
    by blast+
  have own: "map_of (HeatmapOptions_untrimmed sample_heatmap) ''borderRadius'' = Some (PInt 3)"
    "map_of (HeatmapOptions_untrimmed sample_heatmap) ''colsize'' = Some (PInt 1)"
    "map_of (HeatmapOptions_untrimmed sample_heatmap) ''visible'' = None"
    by (simp_all add: HeatmapOptions_untrimmed_def sample_heatmap_def)
  from h1 [rule_format, OF own(1)] h1 [rule_format, OF own(2)]
    h2 [rule_format, of "''visible''" "PBool True", OF _ own(3)] h3 h4 own(1)
  show ?thesis by simp
qed

subsection \<open>Round trip\<close>

lemma validators_string_result:
  assumes "validators_string v True = Inr c"
  shows "c = PNone \<or> (\<exists>s. s \<noteq> [] \<and> c = PStr s)"
  using assms by (cases v) (auto simp: validators_string_def split: if_splits)

lemma validators_string_reread:
  assumes "validators_string v True = Inr c"
  shows "serialized env c = c \<and> validators_string c True = Inr c"
  using validators_string_result [OF assms]
  by (auto simp: serialized_def validators_string_def)

lemma Zone_init_fields:
  assumes "Zone_init env kwargs = Inr e"
  shows "\<exists>a1 a3 a5 z0 z1.
           validators_string a1 True = Inr (zone_class_name e)
         \<and> Zone_dash_style_setter z0 a3 = Inr z1 \<and> zone_dash_style z1 = zone_dash_style e
         \<and> validators_numeric env a5 True None None = Inr (zone_value e)"
proof -
  from assms obtain z1 z2 z3 z4 where
    s1: "Zone_class_name_setter Zone_new (pop kwargs ''class_name'' PNone) = Inr z1" and
    s2: "Zone_color_setter env z1 (pop kwargs ''color'' PNone) = Inr z2" and
    s3: "Zone_dash_style_setter z2 (pop kwargs ''dash_style'' PNone) = Inr z3" and
    s4: "Zone_fill_color_setter env z3 (pop kwargs ''fill_color'' PNone) = Inr z4" and
    s5: "Zone_value_setter env z4 (pop kwargs ''value'' PNone) = Inr e"
    by (auto simp: Zone_init_def split: sum.splits)
  from s1 obtain c1 where c1: "validators_string (pop kwargs ''class_name'' PNone) True = Inr c1"
    "z1 = Zone_new\<lparr>zone_class_name := c1\<rparr>"
    by (auto simp: Zone_class_name_setter_def assign_def split: sum.splits)
  from s2 obtain c2 where c2: "z2 = z1\<lparr>zone_color := c2\<rparr>"
    by (auto simp: Zone_color_setter_def assign_def split: sum.splits)
  from s3 have c3: "zone_class_name z3 = zone_class_name z2"
    by (auto simp: Zone_dash_style_setter_def split: sum.splits if_splits)
  from s4 obtain c4 where c4: "z4 = z3\<lparr>zone_fill_color := c4\<rparr>"
    by (auto simp: Zone_fill_color_setter_def assign_def split: sum.splits)
  from s5 obtain c5 where c5: "validators_numeric env (pop kwargs ''value'' PNone) True None None = Inr c5"
    "e = z4\<lparr>zone_value := c5\<rparr>"
    by (auto simp: Zone_value_setter_def assign_def split: sum.splits)
  have "validators_string (pop kwargs ''class_name'' PNone) True = Inr (zone_class_name e)"
    using c1 c2 c3 c4 c5 by simp
  moreover have "zone_dash_style z3 = zone_dash_style e" using c4 c5 by simp
  moreover have "validators_numeric env (pop kwargs ''value'' PNone) True None None
      = Inr (zone_value e)"
    using c5 by simp
  ultimately show ?thesis using s3 by blast
qed

lemma sample_zone_init: "Zone_init sample_env sample_zone_kwargs = Inr sample_zone"
  by (simp add: Zone_init_def sample_zone_kwargs_def sample_zone_def pop_def
      Zone_class_name_setter_def Zone_color_setter_def Zone_dash_style_setter_def
      Zone_fill_color_setter_def Zone_value_setter_def assign_def Zone_new_def
      validators_string_def check_bounds_def resolve_color_def construct_def
      sample_env_def attrs_of_mapping_def sample_gradient_mapping_def
      SUPPORTED_DASH_STYLE_VALUES_def)

text \<open>
  Claim C3. The claim: reading back the serialized form of an entity gives the entity,
  \<open>from_dict(to_dict(e)) == e\<close>, and a field left \<open>None\<close> is absent from the
  serialized mapping. No value of the mapping that \<open>Zone.to_dict\<close> returns is \<open>None\<close>.
  The round trip fails for a \<open>Zone\<close> whose \<open>color\<close> holds a color object: \<open>to_dict\<close>
  writes the object as its mapping under \<open>color\<close>; \<open>from_dict\<close> assigns that mapping to
  \<open>color\<close>, whose setter passes a mapping with the key \<open>linearGradient\<close> to
  \<open>Gradient.from_json\<close> and catches \<open>ValueError\<close> only. An error of \<open>from_json\<close> that
  is no \<open>ValueError\<close> (it raises \<open>TypeError\<close> on a mapping) is then the result of
  \<open>from_dict\<close>, and no \<open>Zone\<close> is returned.
\<close>

theorem zone_gradient_round_trip_raises:
  assumes "Zone_init env kwargs = Inr e"
    and "zone_color e = PObj c a"
    and "dict_has ''linearGradient'' (PDict (entity_to_dict env c a))"
    and "Gradient_from_json env (PDict (entity_to_dict env c a)) = Inl err"
    and "\<not> is_ValueError err"
  shows "Zone_from_dict env (Zone_to_dict env e) = Inl err
       \<and> (\<forall>key v. (key, v) \<in> set (Zone_to_dict env e) \<longrightarrow> v \<noteq> PNone)"
proof
  from Zone_init_fields [OF assms(1)] obtain a1 where
    f1: "validators_string a1 True = Inr (zone_class_name e)"
    by blast
  note r1 = validators_string_reread [OF f1, of env]
  from assms(3) have ne: "entity_to_dict env c a \<noteq> []" by auto
  with assms(2) have ser: "serialized env (zone_color e) = PDict (entity_to_dict env c a)"
    by (simp add: serialized_def)
  have pops:
    "pop (Zone_to_dict env e) ''className'' PNone = zone_class_name e"
    "pop (Zone_to_dict env e) ''color'' PNone = PDict (entity_to_dict env c a)"
    using r1 ser by (simp_all add: Zone_to_dict_def pop_trim_dict del: trim_dict.simps)
  have color: "Zone_color_setter env z (PDict (entity_to_dict env c a)) = Inl err" for z
    using assms(3,4,5)
    by (simp add: Zone_color_setter_def assign_def resolve_color_gradient_mapping)
  show "Zone_from_dict env (Zone_to_dict env e) = Inl err"
    unfolding Zone_from_dict_def pops
    using r1 color
    by (simp add: Zone_init_def pop_def Zone_class_name_setter_def assign_def)
next
  show "\<forall>key v. (key, v) \<in> set (Zone_to_dict env e) \<longrightarrow> v \<noteq> PNone"
    unfolding Zone_to_dict_def using trim_dict_no_empty by fastforce
qed

lemma sample_zone_to_dict:
  "Zone_to_dict sample_env sample_zone =
     [(''className'', PStr ''warm''), (''color'', PDict sample_gradient_mapping),
      (''dashStyle'', PStr ''ShortDash''), (''value'', PInt 10)]"
  by (simp add: Zone_to_dict_def sample_zone_def sample_env_def sample_gradient_mapping_def)

theorem zone_gradient_round_trip_raises_witness:
  "Zone_init sample_env sample_zone_kwargs = Inr sample_zone
   \<and> zone_color sample_zone = PObj ''Gradient'' sample_gradient_mapping
   \<and> Zone_to_dict sample_env sample_zone =
       [(''className'', PStr ''warm''), (''color'', PDict sample_gradient_mapping),
        (''dashStyle'', PStr ''ShortDash''), (''value'', PInt 10)]
   \<and> Gradient_from_json sample_env (PDict sample_gradient_mapping) = Inl TypeError
   \<and> \<not> is_ValueError TypeError
   \<and> Zone_from_dict sample_env (Zone_to_dict sample_env sample_zone) = Inl TypeError"
proof -
  have g: "entity_to_dict sample_env ''Gradient'' sample_gradient_mapping
      = sample_gradient_mapping"
    by (simp add: sample_env_def)
  have h: "dict_has ''linearGradient'' (PDict sample_gradient_mapping)"
    "Gradient_from_json sample_env (PDict sample_gradient_mapping) = Inl TypeError"
    "zone_color sample_zone = PObj ''Gradient'' sample_gradient_mapping"
    by (simp_all add: sample_gradient_mapping_def sample_env_def json_text_only_def
        sample_zone_def)
  from zone_gradient_round_trip_raises
    [of sample_env sample_zone_kwargs sample_zone "''Gradient''" sample_gradient_mapping
      TypeError, unfolded g, OF sample_zone_init h(3) h(1) h(2)]
  have "Zone_from_dict sample_env (Zone_to_dict sample_env sample_zone) = Inl TypeError"
    by simp
  with sample_zone_init sample_zone_to_dict h show ?thesis by simp
qed

subsection \<open>Fields of a Legend kept by its setters\<close>

lemma run_setters_invariant_all:
  assumes "run_setters self fs = Inr self'" and "P self"
    and "list_all (\<lambda>f. \<forall>s s'. P s \<longrightarrow> f s = Inr s' \<longrightarrow> P s') fs"
  shows "P self'"
proof (rule run_setters_invariant [where P = P, OF assms(1,2)])
  fix f s s' assume "f \<in> set fs" "P s" "f s = Inr s'"
  with assms(3) show "P s'" by (auto simp: list_all_iff)
qed

lemma check_bounds_Inr:
  assumes "check_bounds r minimum maximum v = Inr c"
  shows "c = v \<and> check_bounds r minimum maximum v' = Inr v'"
  using assms by (auto simp: check_bounds_def split: if_splits)

lemma validators_numeric_reread_bounds:
  assumes "validators_numeric env v True minimum maximum = Inr c"
  shows "serialized env c = c \<and> validators_numeric env c True minimum maximum = Inr c"
proof (cases v)
  case PNone
  with assms show ?thesis by (simp add: serialized_def)
next
  case (PBool b)
  with assms check_bounds_Inr [of "if b then 1 else 0" minimum maximum "PBool b" c "PBool b"] show ?thesis
    by (simp add: serialized_def)
next
  case (PInt n)
  with assms check_bounds_Inr [of "of_int n" minimum maximum "PInt n" c "PInt n"] show ?thesis
    by (simp add: serialized_def)
next
  case (PFloat r)
  with assms check_bounds_Inr [of r minimum maximum "PFloat r" c "PFloat r"] show ?thesis
    by (simp add: serialized_def)
next
  case (PStr s)
  with assms obtain r where "float_of_str env s = Some r"
    and "check_bounds r minimum maximum (PFloat r) = Inr c"
    by (auto split: option.splits)
  with check_bounds_Inr [of r minimum maximum "PFloat r" c "PFloat r"] show ?thesis
    by (simp add: serialized_def)
next
  case (PList xs)
  with assms show ?thesis by simp
next
  case (PDict kvs)
  with assms show ?thesis by simp
next
  case (PObj cls attrs)
  with assms show ?thesis by simp
qed

lemma Legend_accessibility_frame:
  assumes "Legend_accessibility_setter env self value = Inr self'"
  shows "\<exists>c. self' = self\<lparr>legend_accessibility := c\<rparr>"
  using assms by (auto simp: Legend_accessibility_setter_def assign_def split: sum.splits if_splits)

lemma enum_member_reads_back_align:
  assumes "t \<in> set [''left'', ''center'', ''right'']"
  shows "reads_back env Legend_align_setter legend_align_update (PStr t)"
proof -
  from assms have "lower t = t" and "t \<noteq> []"
    by (auto simp: lower_def lower_char_def)
  with assms show ?thesis
    by (simp add: Legend_align_setter_def reads_back_def serialized_def validators_string_def)
qed

lemma Legend_align_frame:
  assumes "Legend_align_setter self value = Inr self'"
  shows "\<exists>c. self' = self\<lparr>legend_align := c\<rparr>
           \<and> reads_back env Legend_align_setter legend_align_update c"
proof (cases "truthy value")
  case False
  with assms have "self' = self\<lparr>legend_align := PNone\<rparr>"
    by (simp add: Legend_align_setter_def)
  moreover have "reads_back env Legend_align_setter legend_align_update PNone"
    by (simp add: reads_back_def serialized_def Legend_align_setter_def)
  ultimately show ?thesis by blast
next
  case True
  with assms obtain s where v: "value = PStr s"
    by (cases "value") (simp_all add: Legend_align_setter_def validators_string_def)
  from assms True v have t: "lower s \<in> set [''left'', ''center'', ''right'']"
    and s: "self' = self\<lparr>legend_align := PStr (lower s)\<rparr>"
    by (simp_all add: Legend_align_setter_def validators_string_def split: if_splits)
  from t have "reads_back env Legend_align_setter legend_align_update (PStr (lower s))"
    by (rule enum_member_reads_back_align)
  with s show ?thesis by blast
qed

lemma Legend_align_columns_frame:
  assumes "Legend_align_columns_setter self value = Inr self'"
  shows "\<exists>c. self' = self\<lparr>legend_align_columns := c\<rparr>
           \<and> reads_back env Legend_align_columns_setter legend_align_columns_update c"
proof (cases "value = PNone")
  case True
  with assms have "self' = self\<lparr>legend_align_columns := PNone\<rparr>"
    by (simp add: Legend_align_columns_setter_def)
  moreover have "reads_back env Legend_align_columns_setter legend_align_columns_update PNone"
    by (simp add: reads_back_def serialized_def Legend_align_columns_setter_def)
  ultimately show ?thesis by blast
next
  case False
  with assms have "self' = self\<lparr>legend_align_columns := PBool (truthy value)\<rparr>"
    by (simp add: Legend_align_columns_setter_def)
  moreover have "reads_back env Legend_align_columns_setter legend_align_columns_update (PBool (truthy value))"
    by (simp add: reads_back_def serialized_def Legend_align_columns_setter_def)
  ultimately show ?thesis by blast
qed

lemma Legend_background_color_frame:
  assumes "Legend_background_color_setter env self value = Inr self'"
  shows "\<exists>c. self' = self\<lparr>legend_background_color := c\<rparr>"
  using assms by (auto simp: Legend_background_color_setter_def assign_def split: sum.splits if_splits)

lemma Legend_border_color_frame:
  assumes "Legend_border_color_setter env self value = Inr self'"
  shows "\<exists>c. self' = self\<lparr>legend_border_color := c\<rparr>"
  using assms by (auto simp: Legend_border_color_setter_def assign_def split: sum.splits if_splits)

lemma Legend_border_width_frame:
  assumes "Legend_border_width_setter env self value = Inr self'"
  shows "\<exists>c. self' = self\<lparr>legend_border_width := c\<rparr>
           \<and> reads_back env (Legend_border_width_setter env) legend_border_width_update c"
proof -
  from assms obtain c where v: "validators_numeric env value True None None = Inr c"
    and s: "self' = self\<lparr>legend_border_width := c\<rparr>"
    by (auto simp: Legend_border_width_setter_def assign_def split: sum.splits)
  from validators_numeric_reread_bounds [OF v]
  have "reads_back env (Legend_border_width_setter env) legend_border_width_update c"
    by (simp add: reads_back_def Legend_border_width_setter_def assign_def)
  with s show ?thesis by blast
qed

lemma Legend_border_radius_frame:
  assumes "Legend_border_radius_setter env self value = Inr self'"
  shows "\<exists>c. self' = self\<lparr>legend_border_radius := c\<rparr>
           \<and> reads_back env (Legend_border_radius_setter env) legend_border_radius_update c"
proof -
  from assms obtain c where v: "validators_numeric env value True None None = Inr c"
    and s: "self' = self\<lparr>legend_border_radius := c\<rparr>"
    by (auto simp: Legend_border_radius_setter_def assign_def split: sum.splits)
  from validators_numeric_reread_bounds [OF v]
  have "reads_back env (Legend_border_radius_setter env) legend_border_radius_update c"
    by (simp add: reads_back_def Legend_border_radius_setter_def assign_def)
  with s show ?thesis by blast
qed

lemma Legend_bubble_legend_frame:
  assumes "Legend_bubble_legend_setter env self value = Inr self'"
  shows "\<exists>c. self' = self\<lparr>legend_bubble_legend := c\<rparr>"
  using assms by (auto simp: Legend_bubble_legend_setter_def assign_def split: sum.splits if_splits)

lemma Legend_class_name_frame:
  assumes "Legend_class_name_setter self value = Inr self'"
  shows "\<exists>c. self' = self\<lparr>legend_class_name := c\<rparr>
           \<and> reads_back env Legend_class_name_setter legend_class_name_update c"
proof -
  from assms obtain c where v: "validators_string value True = Inr c"
    and s: "self' = self\<lparr>legend_class_name := c\<rparr>"
    by (auto simp: Legend_class_name_setter_def assign_def split: sum.splits)
  from validators_string_reread [OF v, of env]
  have "reads_back env Legend_class_name_setter legend_class_name_update c"
    by (simp add: reads_back_def Legend_class_name_setter_def assign_def)
  with s show ?thesis by blast
qed

lemma Legend_enabled_frame:
  assumes "Legend_enabled_setter self value = Inr self'"
  shows "\<exists>c. self' = self\<lparr>legend_enabled := c\<rparr>
           \<and> reads_back env Legend_enabled_setter legend_enabled_update c"
proof (cases "value = PNone")
  case True
  with assms have "self' = self\<lparr>legend_enabled := PNone\<rparr>"
    by (simp add: Legend_enabled_setter_def)
  moreover have "reads_back env Legend_enabled_setter legend_enabled_update PNone"
    by (simp add: reads_back_def serialized_def Legend_enabled_setter_def)
  ultimately show ?thesis by blast
next
  case False
  with assms have "self' = self\<lparr>legend_enabled := PBool (truthy value)\<rparr>"
    by (simp add: Legend_enabled_setter_def)
  moreover have "reads_back env Legend_enabled_setter legend_enabled_update (PBool (truthy value))"
    by (simp add: reads_back_def serialized_def Legend_enabled_setter_def)
  ultimately show ?thesis by blast
qed

lemma Legend_floating_frame:
  assumes "Legend_floating_setter self value = Inr self'"
  shows "\<exists>c. self' = self\<lparr>legend_floating := c\<rparr>
           \<and> reads_back env Legend_floating_setter legend_floating_update c"
proof (cases "value = PNone")
  case True
  with assms have "self' = self\<lparr>legend_floating := PNone\<rparr>"
    by (simp add: Legend_floating_setter_def)
  moreover have "reads_back env Legend_floating_setter legend_floating_update PNone"
    by (simp add: reads_back_def serialized_def Legend_floating_setter_def)
  ultimately show ?thesis by blast
next
  case False
  with assms have "self' = self\<lparr>legend_floating := PBool (truthy value)\<rparr>"
    by (simp add: Legend_floating_setter_def)
  moreover have "reads_back env Legend_floating_setter legend_floating_update (PBool (truthy value))"
    by (simp add: reads_back_def serialized_def Legend_floating_setter_def)
  ultimately show ?thesis by blast
qed

lemma Legend_item_checkbox_style_frame:
  assumes "Legend_item_checkbox_style_setter self value = Inr self'"
  shows "\<exists>c. self' = self\<lparr>legend_item_checkbox_style := c\<rparr>
           \<and> reads_back env Legend_item_checkbox_style_setter legend_item_checkbox_style_update c"
proof -
  from assms obtain c where v: "validators_string value True = Inr c"
    and s: "self' = self\<lparr>legend_item_checkbox_style := c\<rparr>"
    by (auto simp: Legend_item_checkbox_style_setter_def assign_def split: sum.splits)
  from validators_string_reread [OF v, of env]
  have "reads_back env Legend_item_checkbox_style_setter legend_item_checkbox_style_update c"
    by (simp add: reads_back_def Legend_item_checkbox_style_setter_def assign_def)
  with s show ?thesis by blast
qed

lemma Legend_item_distance_frame:
  assumes "Legend_item_distance_setter env self value = Inr self'"
  shows "\<exists>c. self' = self\<lparr>legend_item_distance := c\<rparr>
           \<and> reads_back env (Legend_item_distance_setter env) legend_item_distance_update c"
proof -
  from assms obtain c where v: "validators_numeric env value True (Some 0) None = Inr c"
    and s: "self' = self\<lparr>legend_item_distance := c\<rparr>"
    by (auto simp: Legend_item_distance_setter_def assign_def split: sum.splits)
  from validators_numeric_reread_bounds [OF v]
  have "reads_back env (Legend_item_distance_setter env) legend_item_distance_update c"
    by (simp add: reads_back_def Legend_item_distance_setter_def assign_def)
  with s show ?thesis by blast
qed

lemma Legend_item_hidden_style_frame:
  assumes "Legend_item_hidden_style_setter self value = Inr self'"
  shows "\<exists>c. self' = self\<lparr>legend_item_hidden_style := c\<rparr>
           \<and> reads_back env Legend_item_hidden_style_setter legend_item_hidden_style_update c"
proof -
  from assms obtain c where v: "validators_string value True = Inr c"
    and s: "self' = self\<lparr>legend_item_hidden_style := c\<rparr>"
    by (auto simp: Legend_item_hidden_style_setter_def assign_def split: sum.splits)
  from validators_string_reread [OF v, of env]
  have "reads_back env Legend_item_hidden_style_setter legend_item_hidden_style_update c"
    by (simp add: reads_back_def Legend_item_hidden_style_setter_def assign_def)
  with s show ?thesis by blast
qed

lemma Legend_item_hover_style_frame:
  assumes "Legend_item_hover_style_setter self value = Inr self'"
  shows "\<exists>c. self' = self\<lparr>legend_item_hover_style := c\<rparr>
           \<and> reads_back env Legend_item_hover_style_setter legend_item_hover_style_update c"
proof -
  from assms obtain c where v: "validators_string value True = Inr c"
    and s: "self' = self\<lparr>legend_item_hover_style := c\<rparr>"
    by (auto simp: Legend_item_hover_style_setter_def assign_def split: sum.splits)
  from validators_string_reread [OF v, of env]
  have "reads_back env Legend_item_hover_style_setter legend_item_hover_style_update c"
    by (simp add: reads_back_def Legend_item_hover_style_setter_def assign_def)
  with s show ?thesis by blast
qed

lemma Legend_item_margin_bottom_frame:
  assumes "Legend_item_margin_bottom_setter env self value = Inr self'"
  shows "\<exists>c. self' = self\<lparr>legend_item_margin_bottom := c\<rparr>
           \<and> reads_back env (Legend_item_margin_bottom_setter env) legend_item_margin_bottom_update c"
proof -
  from assms obtain c where v: "validators_numeric env value True (Some 0) None = Inr c"
    and s: "self' = self\<lparr>legend_item_margin_bottom := c\<rparr>"
    by (auto simp: Legend_item_margin_bottom_setter_def assign_def split: sum.splits)
  from validators_numeric_reread_bounds [OF v]
  have "reads_back env (Legend_item_margin_bottom_setter env) legend_item_margin_bottom_update c"
    by (simp add: reads_back_def Legend_item_margin_bottom_setter_def assign_def)
  with s show ?thesis by blast
qed

lemma Legend_item_margin_top_frame:
  assumes "Legend_item_margin_top_setter env self value = Inr self'"
  shows "\<exists>c. self' = self\<lparr>legend_item_margin_top := c\<rparr>
           \<and> reads_back env (Legend_item_margin_top_setter env) legend_item_margin_top_update c"
proof -
  from assms obtain c where v: "validators_numeric env value True (Some 0) None = Inr c"
    and s: "self' = self\<lparr>legend_item_margin_top := c\<rparr>"
    by (auto simp: Legend_item_margin_top_setter_def assign_def split: sum.splits)
  from validators_numeric_reread_bounds [OF v]
  have "reads_back env (Legend_item_margin_top_setter env) legend_item_margin_top_update c"
    by (simp add: reads_back_def Legend_item_margin_top_setter_def assign_def)
  with s show ?thesis by blast
qed

lemma Legend_item_style_frame:
  assumes "Legend_item_style_setter self value = Inr self'"
  shows "\<exists>c. self' = self\<lparr>legend_item_style := c\<rparr>
           \<and> reads_back env Legend_item_style_setter legend_item_style_update c"
proof -
  from assms obtain c where v: "validators_string value True = Inr c"
    and s: "self' = self\<lparr>legend_item_style := c\<rparr>"
    by (auto simp: Legend_item_style_setter_def assign_def split: sum.splits)
  from validators_string_reread [OF v, of env]
  have "reads_back env Legend_item_style_setter legend_item_style_update c"
    by (simp add: reads_back_def Legend_item_style_setter_def assign_def)
  with s show ?thesis by blast
qed

lemma Legend_item_width_frame:
  assumes "Legend_item_width_setter env self value = Inr self'"
  shows "\<exists>c. self' = self\<lparr>legend_item_width := c\<rparr>
           \<and> reads_back env (Legend_item_width_setter env) legend_item_width_update c"
proof -
  from assms obtain c where v: "validators_numeric env value True (Some 0) None = Inr c"
    and s: "self' = self\<lparr>legend_item_width := c\<rparr>"
    by (auto simp: Legend_item_width_setter_def assign_def split: sum.splits)
  from validators_numeric_reread_bounds [OF v]
  have "reads_back env (Legend_item_width_setter env) legend_item_width_update c"
    by (simp add: reads_back_def Legend_item_width_setter_def assign_def)
  with s show ?thesis by blast
qed

lemma Legend_label_format_frame:
  assumes "Legend_label_format_setter self value = Inr self'"
  shows "\<exists>c. self' = self\<lparr>legend_label_format := c\<rparr>
           \<and> reads_back env Legend_label_format_setter legend_label_format_update c"
proof -
  from assms obtain c where v: "validators_string value True = Inr c"
    and s: "self' = self\<lparr>legend_label_format := c\<rparr>"
    by (auto simp: Legend_label_format_setter_def assign_def split: sum.splits)
  from validators_string_reread [OF v, of env]
  have "reads_back env Legend_label_format_setter legend_label_format_update c"
    by (simp add: reads_back_def Legend_label_format_setter_def assign_def)
  with s show ?thesis by blast
qed

lemma Legend_label_formatter_frame:
  assumes "Legend_label_formatter_setter env self value = Inr self'"
  shows "\<exists>c. self' = self\<lparr>legend_label_formatter := c\<rparr>"
  using assms by (auto simp: Legend_label_formatter_setter_def assign_def split: sum.splits if_splits)

lemma enum_member_reads_back_layout:
  assumes "t \<in> set [''horizontal'', ''vertical'', ''proximate'']"
  shows "reads_back env Legend_layout_setter legend_layout_update (PStr t)"
proof -
  from assms have "lower t = t" and "t \<noteq> []"
    by (auto simp: lower_def lower_char_def)
  with assms show ?thesis
    by (simp add: Legend_layout_setter_def reads_back_def serialized_def validators_string_def)
qed

lemma Legend_layout_frame:
  assumes "Legend_layout_setter self value = Inr self'"
  shows "\<exists>c. self' = self\<lparr>legend_layout := c\<rparr>
           \<and> reads_back env Legend_layout_setter legend_layout_update c"
proof (cases "truthy value")
  case False
  with assms have "self' = self\<lparr>legend_layout := PNone\<rparr>"
    by (simp add: Legend_layout_setter_def)
  moreover have "reads_back env Legend_layout_setter legend_layout_update PNone"
    by (simp add: reads_back_def serialized_def Legend_layout_setter_def)
  ultimately show ?thesis by blast
next
  case True
  with assms obtain s where v: "value = PStr s"
    by (cases "value") (simp_all add: Legend_layout_setter_def validators_string_def)
  from assms True v have t: "lower s \<in> set [''horizontal'', ''vertical'', ''proximate'']"
    and s: "self' = self\<lparr>legend_layout := PStr (lower s)\<rparr>"
    by (simp_all add: Legend_layout_setter_def validators_string_def split: if_splits)
  from t have "reads_back env Legend_layout_setter legend_layout_update (PStr (lower s))"
    by (rule enum_member_reads_back_layout)
  with s show ?thesis by blast
qed

lemma Legend_margin_frame:
  assumes "Legend_margin_setter env self value = Inr self'"
  shows "\<exists>c. self' = self\<lparr>legend_margin := c\<rparr>
           \<and> reads_back env (Legend_margin_setter env) legend_margin_update c"
proof -
  from assms obtain c where v: "validators_numeric env value True None None = Inr c"
    and s: "self' = self\<lparr>legend_margin := c\<rparr>"
    by (auto simp: Legend_margin_setter_def assign_def split: sum.splits)
  from validators_numeric_reread_bounds [OF v]
  have "reads_back env (Legend_margin_setter env) legend_margin_update c"
    by (simp add: reads_back_def Legend_margin_setter_def assign_def)
  with s show ?thesis by blast
qed

lemma Legend_max_height_frame:
  assumes "Legend_max_height_setter env self value = Inr self'"
  shows "\<exists>c. self' = self\<lparr>legend_max_height := c\<rparr>
           \<and> reads_back env (Legend_max_height_setter env) legend_max_height_update c"
proof -
  from assms obtain c where v: "validators_numeric env value True (Some 0) None = Inr c"
    and s: "self' = self\<lparr>legend_max_height := c\<rparr>"
    by (auto simp: Legend_max_height_setter_def assign_def split: sum.splits)
  from validators_numeric_reread_bounds [OF v]
  have "reads_back env (Legend_max_height_setter env) legend_max_height_update c"
    by (simp add: reads_back_def Legend_max_height_setter_def assign_def)
  with s show ?thesis by blast
qed

lemma Legend_navigation_frame:
  assumes "Legend_navigation_setter env self value = Inr self'"
  shows "\<exists>c. self' = self\<lparr>legend_navigation := c\<rparr>"
  using assms by (auto simp: Legend_navigation_setter_def assign_def split: sum.splits if_splits)

lemma Legend_padding_frame:
  assumes "Legend_padding_setter env self value = Inr self'"
  shows "\<exists>c. self' = self\<lparr>legend_padding := c\<rparr>
           \<and> reads_back env (Legend_padding_setter env) legend_padding_update c"
proof -
  from assms obtain c where v: "validators_numeric env value True None None = Inr c"
    and s: "self' = self\<lparr>legend_padding := c\<rparr>"
    by (auto simp: Legend_padding_setter_def assign_def split: sum.splits)
  from validators_numeric_reread_bounds [OF v]
  have "reads_back env (Legend_padding_setter env) legend_padding_update c"
    by (simp add: reads_back_def Legend_padding_setter_def assign_def)
  with s show ?thesis by blast
qed

lemma Legend_reversed_frame:
  assumes "Legend_reversed_setter self value = Inr self'"
  shows "\<exists>c. self' = self\<lparr>legend_reversed := c\<rparr>
           \<and> reads_back env Legend_reversed_setter legend_reversed_update c"
proof (cases "value = PNone")
  case True
  with assms have "self' = self\<lparr>legend_reversed := PNone\<rparr>"
    by (simp add: Legend_reversed_setter_def)
  moreover have "reads_back env Legend_reversed_setter legend_reversed_update PNone"
    by (simp add: reads_back_def serialized_def Legend_reversed_setter_def)
  ultimately show ?thesis by blast
next
  case False
  with assms have "self' = self\<lparr>legend_reversed := PBool (truthy value)\<rparr>"
    by (simp add: Legend_reversed_setter_def)
  moreover have "reads_back env Legend_reversed_setter legend_reversed_update (PBool (truthy value))"
    by (simp add: reads_back_def serialized_def Legend_reversed_setter_def)
  ultimately show ?thesis by blast
qed

lemma Legend_rtl_frame:
  assumes "Legend_rtl_setter self value = Inr self'"
  shows "\<exists>c. self' = self\<lparr>legend_rtl := c\<rparr>
           \<and> reads_back env Legend_rtl_setter legend_rtl_update c"
proof (cases "value = PNone")
  case True
  with assms have "self' = self\<lparr>legend_rtl := PNone\<rparr>"
    by (simp add: Legend_rtl_setter_def)
  moreover have "reads_back env Legend_rtl_setter legend_rtl_update PNone"
    by (simp add: reads_back_def serialized_def Legend_rtl_setter_def)
  ultimately show ?thesis by blast
next
  case False
  with assms have "self' = self\<lparr>legend_rtl := PBool (truthy value)\<rparr>"
    by (simp add: Legend_rtl_setter_def)
  moreover have "reads_back env Legend_rtl_setter legend_rtl_update (PBool (truthy value))"
    by (simp add: reads_back_def serialized_def Legend_rtl_setter_def)
  ultimately show ?thesis by blast
qed

lemma Legend_shadow_frame:
  assumes "Legend_shadow_setter env self value = Inr self'"
  shows "\<exists>c. self' = self\<lparr>legend_shadow := c\<rparr>"
  using assms by (auto simp: Legend_shadow_setter_def assign_def split: sum.splits if_splits)

lemma Legend_square_symbol_frame:
  assumes "Legend_square_symbol_setter self value = Inr self'"
  shows "\<exists>c. self' = self\<lparr>legend_square_symbol := c\<rparr>
           \<and> reads_back env Legend_square_symbol_setter legend_square_symbol_update c"
proof (cases "value = PNone")
  case True
  with assms have "self' = self\<lparr>legend_square_symbol := PNone\<rparr>"
    by (simp add: Legend_square_symbol_setter_def)
  moreover have "reads_back env Legend_square_symbol_setter legend_square_symbol_update PNone"
    by (simp add: reads_back_def serialized_def Legend_square_symbol_setter_def)
  ultimately show ?thesis by blast
next
  case False
  with assms have "self' = self\<lparr>legend_square_symbol := PBool (truthy value)\<rparr>"
    by (simp add: Legend_square_symbol_setter_def)
  moreover have "reads_back env Legend_square_symbol_setter legend_square_symbol_update (PBool (truthy value))"
    by (simp add: reads_back_def serialized_def Legend_square_symbol_setter_def)
  ultimately show ?thesis by blast
qed

lemma Legend_symbol_height_frame:
  assumes "Legend_symbol_height_setter env self value = Inr self'"
  shows "\<exists>c. self' = self\<lparr>legend_symbol_height := c\<rparr>
           \<and> reads_back env (Legend_symbol_height_setter env) legend_symbol_height_update c"
proof -
  from assms obtain c where v: "validators_numeric env value True (Some 0) None = Inr c"
    and s: "self' = self\<lparr>legend_symbol_height := c\<rparr>"
    by (auto simp: Legend_symbol_height_setter_def assign_def split: sum.splits)
  from validators_numeric_reread_bounds [OF v]
  have "reads_back env (Legend_symbol_height_setter env) legend_symbol_height_update c"
    by (simp add: reads_back_def Legend_symbol_height_setter_def assign_def)
  with s show ?thesis by blast
qed

lemma Legend_symbol_padding_frame:
  assumes "Legend_symbol_padding_setter env self value = Inr self'"
  shows "\<exists>c. self' = self\<lparr>legend_symbol_padding := c\<rparr>
           \<and> reads_back env (Legend_symbol_padding_setter env) legend_symbol_padding_update c"
proof -
  from assms obtain c where v: "validators_numeric env value True None None = Inr c"
    and s: "self' = self\<lparr>legend_symbol_padding := c\<rparr>"
    by (auto simp: Legend_symbol_padding_setter_def assign_def split: sum.splits)
  from validators_numeric_reread_bounds [OF v]
  have "reads_back env (Legend_symbol_padding_setter env) legend_symbol_padding_update c"
    by (simp add: reads_back_def Legend_symbol_padding_setter_def assign_def)
  with s show ?thesis by blast
qed

lemma Legend_symbol_radius_frame:
  assumes "Legend_symbol_radius_setter env self value = Inr self'"
  shows "\<exists>c. self' = self\<lparr>legend_symbol_radius := c\<rparr>
           \<and> reads_back env (Legend_symbol_radius_setter env) legend_symbol_radius_update c"
proof -
  from assms obtain c where v: "validators_numeric env value True None None = Inr c"
    and s: "self' = self\<lparr>legend_symbol_radius := c\<rparr>"
    by (auto simp: Legend_symbol_radius_setter_def assign_def split: sum.splits)
  from validators_numeric_reread_bounds [OF v]
  have "reads_back env (Legend_symbol_radius_setter env) legend_symbol_radius_update c"
    by (simp add: reads_back_def Legend_symbol_radius_setter_def assign_def)
  with s show ?thesis by blast
qed

lemma Legend_symbol_width_frame:
  assumes "Legend_symbol_width_setter env self value = Inr self'"
  shows "\<exists>c. self' = self\<lparr>legend_symbol_width := c\<rparr>
           \<and> reads_back env (Legend_symbol_width_setter env) legend_symbol_width_update c"
proof -
  from assms obtain c where v: "validators_numeric env value True (Some 0) None = Inr c"
    and s: "self' = self\<lparr>legend_symbol_width := c\<rparr>"
    by (auto simp: Legend_symbol_width_setter_def assign_def split: sum.splits)
  from validators_numeric_reread_bounds [OF v]
  have "reads_back env (Legend_symbol_width_setter env) legend_symbol_width_update c"
    by (simp add: reads_back_def Legend_symbol_width_setter_def assign_def)
  with s show ?thesis by blast
qed

lemma Legend_title_frame:
  assumes "Legend_title_setter env self value = Inr self'"
  shows "\<exists>c. self' = self\<lparr>legend_title := c\<rparr>"
  using assms by (auto simp: Legend_title_setter_def assign_def split: sum.splits if_splits)

lemma Legend_use_html_frame:
  assumes "Legend_use_html_setter self value = Inr self'"
  shows "\<exists>c. self' = self\<lparr>legend_use_html := c\<rparr>
           \<and> reads_back env Legend_use_html_setter legend_use_html_update c"
proof (cases "value = PNone")
  case True
  with assms have "self' = self\<lparr>legend_use_html := PNone\<rparr>"
    by (simp add: Legend_use_html_setter_def)
  moreover have "reads_back env Legend_use_html_setter legend_use_html_update PNone"
    by (simp add: reads_back_def serialized_def Legend_use_html_setter_def)
  ultimately show ?thesis by blast
next
  case False
  with assms have "self' = self\<lparr>legend_use_html := PBool (truthy value)\<rparr>"
    by (simp add: Legend_use_html_setter_def)
  moreover have "reads_back env Legend_use_html_setter legend_use_html_update (PBool (truthy value))"
    by (simp add: reads_back_def serialized_def Legend_use_html_setter_def)
  ultimately show ?thesis by blast
qed

lemma enum_member_reads_back_vertical_align:
  assumes "t \<in> set [''bottom'', ''middle'', ''top'']"
  shows "reads_back env Legend_vertical_align_setter legend_vertical_align_update (PStr t)"
proof -
  from assms have "lower t = t" and "t \<noteq> []"
    by (auto simp: lower_def lower_char_def)
  with assms show ?thesis
    by (simp add: Legend_vertical_align_setter_def reads_back_def serialized_def validators_string_def)
qed

lemma Legend_vertical_align_frame:
  assumes "Legend_vertical_align_setter self value = Inr self'"
  shows "\<exists>c. self' = self\<lparr>legend_vertical_align := c\<rparr>
           \<and> reads_back env Legend_vertical_align_setter legend_vertical_align_update c"
proof (cases "truthy value")
  case False
  with assms have "self' = self\<lparr>legend_vertical_align := PNone\<rparr>"
    by (simp add: Legend_vertical_align_setter_def)
  moreover have "reads_back env Legend_vertical_align_setter legend_vertical_align_update PNone"
    by (simp add: reads_back_def serialized_def Legend_vertical_align_setter_def)
  ultimately show ?thesis by blast
next
  case True
  with assms obtain s where v: "value = PStr s"
    by (cases "value") (simp_all add: Legend_vertical_align_setter_def validators_string_def)
  from assms True v have t: "lower s \<in> set [''bottom'', ''middle'', ''top'']"
    and s: "self' = self\<lparr>legend_vertical_align := PStr (lower s)\<rparr>"
    by (simp_all add: Legend_vertical_align_setter_def validators_string_def split: if_splits)
  from t have "reads_back env Legend_vertical_align_setter legend_vertical_align_update (PStr (lower s))"
    by (rule enum_member_reads_back_vertical_align)
  with s show ?thesis by blast
qed

lemma Legend_width_frame:
  assumes "Legend_width_setter env self value = Inr self'"
  shows "\<exists>c. self' = self\<lparr>legend_width := c\<rparr>
           \<and> reads_back env (Legend_width_setter env) legend_width_update c"
proof (cases "truthy value")
  case False
  with assms have "self' = self\<lparr>legend_width := PNone\<rparr>"
    by (simp add: Legend_width_setter_def)
  moreover have "reads_back env (Legend_width_setter env) legend_width_update PNone"
    by (simp add: reads_back_def serialized_def Legend_width_setter_def)
  ultimately show ?thesis by blast
next
  case True
  with assms obtain t where v: "value = PStr t"
    by (cases "value") (simp_all add: Legend_width_setter_def validators_string_def)
  from assms True v have s: "self' = self\<lparr>legend_width := PStr t\<rparr>"
    by (simp add: Legend_width_setter_def validators_string_def)
  from True v have "reads_back env (Legend_width_setter env) legend_width_update (PStr t)"
    by (simp add: Legend_width_setter_def reads_back_def serialized_def validators_string_def)
  with s show ?thesis by blast
qed

lemma Legend_x_frame:
  assumes "Legend_x_setter env self value = Inr self'"
  shows "self' = self"
  using assms by (auto simp: Legend_x_setter_def assign_def split: sum.splits)

lemma Legend_y_frame:
  assumes "Legend_y_setter env self value = Inr self'"
  shows "self' = self"
  using assms by (auto simp: Legend_y_setter_def assign_def split: sum.splits)

lemma Legend_accessibility_keeps:
  assumes "Legend_accessibility_setter env self value = Inr self'" and "Legend_fields_read_back env self"
  shows "Legend_fields_read_back env self'"
proof -
  from Legend_accessibility_frame [OF assms(1)] obtain c where s: "self' = self\<lparr>legend_accessibility := c\<rparr>"
    by blast
  from assms(2) show ?thesis unfolding Legend_fields_read_back_def s by simp
qed

lemma Legend_align_keeps:
  assumes "Legend_align_setter self value = Inr self'" and "Legend_fields_read_back env self"
  shows "Legend_fields_read_back env self'"
proof -
  from Legend_align_frame [OF assms(1), of env] obtain c
    where s: "self' = self\<lparr>legend_align := c\<rparr>"
      and c: "reads_back env Legend_align_setter legend_align_update c"
    by blast
  from assms(2) c show ?thesis unfolding Legend_fields_read_back_def s by simp
qed

lemma Legend_align_columns_keeps:
  assumes "Legend_align_columns_setter self value = Inr self'" and "Legend_fields_read_back env self"
  shows "Legend_fields_read_back env self'"
proof -
  from Legend_align_columns_frame [OF assms(1), of env] obtain c
    where s: "self' = self\<lparr>legend_align_columns := c\<rparr>"
      and c: "reads_back env Legend_align_columns_setter legend_align_columns_update c"
    by blast
  from assms(2) c show ?thesis unfolding Legend_fields_read_back_def s by simp
qed

lemma Legend_background_color_keeps:
  assumes "Legend_background_color_setter env self value = Inr self'" and "Legend_fields_read_back env self"
  shows "Legend_fields_read_back env self'"
proof -
  from Legend_background_color_frame [OF assms(1)] obtain c where s: "self' = self\<lparr>legend_background_color := c\<rparr>"
    by blast
  from assms(2) show ?thesis unfolding Legend_fields_read_back_def s by simp
qed

lemma Legend_border_color_keeps:
  assumes "Legend_border_color_setter env self value = Inr self'" and "Legend_fields_read_back env self"
  shows "Legend_fields_read_back env self'"
proof -
  from Legend_border_color_frame [OF assms(1)] obtain c where s: "self' = self\<lparr>legend_border_color := c\<rparr>"
    by blast
  from assms(2) show ?thesis unfolding Legend_fields_read_back_def s by simp
qed

lemma Legend_border_width_keeps:
  assumes "Legend_border_width_setter env self value = Inr self'" and "Legend_fields_read_back env self"
  shows "Legend_fields_read_back env self'"
proof -
  from Legend_border_width_frame [OF assms(1)] obtain c
    where s: "self' = self\<lparr>legend_border_width := c\<rparr>"
      and c: "reads_back env (Legend_border_width_setter env) legend_border_width_update c"
    by blast
  from assms(2) c show ?thesis unfolding Legend_fields_read_back_def s by simp
qed

lemma Legend_border_radius_keeps:
  assumes "Legend_border_radius_setter env self value = Inr self'" and "Legend_fields_read_back env self"
  shows "Legend_fields_read_back env self'"
proof -
  from Legend_border_radius_frame [OF assms(1)] obtain c
    where s: "self' = self\<lparr>legend_border_radius := c\<rparr>"
      and c: "reads_back env (Legend_border_radius_setter env) legend_border_radius_update c"
    by blast
  from assms(2) c show ?thesis unfolding Legend_fields_read_back_def s by simp
qed

lemma Legend_bubble_legend_keeps:
  assumes "Legend_bubble_legend_setter env self value = Inr self'" and "Legend_fields_read_back env self"
  shows "Legend_fields_read_back env self'"
proof -
  from Legend_bubble_legend_frame [OF assms(1)] obtain c where s: "self' = self\<lparr>legend_bubble_legend := c\<rparr>"
    by blast
  from assms(2) show ?thesis unfolding Legend_fields_read_back_def s by simp
qed

lemma Legend_class_name_keeps:
  assumes "Legend_class_name_setter self value = Inr self'" and "Legend_fields_read_back env self"
  shows "Legend_fields_read_back env self'"
proof -
  from Legend_class_name_frame [OF assms(1), of env] obtain c
    where s: "self' = self\<lparr>legend_class_name := c\<rparr>"
      and c: "reads_back env Legend_class_name_setter legend_class_name_update c"
    by blast
  from assms(2) c show ?thesis unfolding Legend_fields_read_back_def s by simp
qed

lemma Legend_enabled_keeps:
  assumes "Legend_enabled_setter self value = Inr self'" and "Legend_fields_read_back env self"
  shows "Legend_fields_read_back env self'"
proof -
  from Legend_enabled_frame [OF assms(1), of env] obtain c
    where s: "self' = self\<lparr>legend_enabled := c\<rparr>"
      and c: "reads_back env Legend_enabled_setter legend_enabled_update c"
    by blast
  from assms(2) c show ?thesis unfolding Legend_fields_read_back_def s by simp
qed

lemma Legend_floating_keeps:
  assumes "Legend_floating_setter self value = Inr self'" and "Legend_fields_read_back env self"
  shows "Legend_fields_read_back env self'"
proof -
  from Legend_floating_frame [OF assms(1), of env] obtain c
    where s: "self' = self\<lparr>legend_floating := c\<rparr>"
      and c: "reads_back env Legend_floating_setter legend_floating_update c"
    by blast
  from assms(2) c show ?thesis unfolding Legend_fields_read_back_def s by simp
qed

lemma Legend_item_checkbox_style_keeps:
  assumes "Legend_item_checkbox_style_setter self value = Inr self'" and "Legend_fields_read_back env self"
  shows "Legend_fields_read_back env self'"
proof -
  from Legend_item_checkbox_style_frame [OF assms(1), of env] obtain c
    where s: "self' = self\<lparr>legend_item_checkbox_style := c\<rparr>"
      and c: "reads_back env Legend_item_checkbox_style_setter legend_item_checkbox_style_update c"
    by blast
  from assms(2) c show ?thesis unfolding Legend_fields_read_back_def s by simp
qed

lemma Legend_item_distance_keeps:
  assumes "Legend_item_distance_setter env self value = Inr self'" and "Legend_fields_read_back env self"
  shows "Legend_fields_read_back env self'"
proof -
  from Legend_item_distance_frame [OF assms(1)] obtain c
    where s: "self' = self\<lparr>legend_item_distance := c\<rparr>"
      and c: "reads_back env (Legend_item_distance_setter env) legend_item_distance_update c"
    by blast
  from assms(2) c show ?thesis unfolding Legend_fields_read_back_def s by simp
qed

lemma Legend_item_hidden_style_keeps:
  assumes "Legend_item_hidden_style_setter self value = Inr self'" and "Legend_fields_read_back env self"
  shows "Legend_fields_read_back env self'"
proof -
  from Legend_item_hidden_style_frame [OF assms(1), of env] obtain c
    where s: "self' = self\<lparr>legend_item_hidden_style := c\<rparr>"
      and c: "reads_back env Legend_item_hidden_style_setter legend_item_hidden_style_update c"
    by blast
  from assms(2) c show ?thesis unfolding Legend_fields_read_back_def s by simp
qed

lemma Legend_item_hover_style_keeps:
  assumes "Legend_item_hover_style_setter self value = Inr self'" and "Legend_fields_read_back env self"
  shows "Legend_fields_read_back env self'"
proof -
  from Legend_item_hover_style_frame [OF assms(1), of env] obtain c
    where s: "self' = self\<lparr>legend_item_hover_style := c\<rparr>"
      and c: "reads_back env Legend_item_hover_style_setter legend_item_hover_style_update c"
    by blast
  from assms(2) c show ?thesis unfolding Legend_fields_read_back_def s by simp
qed

lemma Legend_item_margin_bottom_keeps:
  assumes "Legend_item_margin_bottom_setter env self value = Inr self'" and "Legend_fields_read_back env self"
  shows "Legend_fields_read_back env self'"
proof -
  from Legend_item_margin_bottom_frame [OF assms(1)] obtain c
    where s: "self' = self\<lparr>legend_item_margin_bottom := c\<rparr>"
      and c: "reads_back env (Legend_item_margin_bottom_setter env) legend_item_margin_bottom_update c"
    by blast
  from assms(2) c show ?thesis unfolding Legend_fields_read_back_def s by simp
qed

lemma Legend_item_margin_top_keeps:
  assumes "Legend_item_margin_top_setter env self value = Inr self'" and "Legend_fields_read_back env self"
  shows "Legend_fields_read_back env self'"
proof -
  from Legend_item_margin_top_frame [OF assms(1)] obtain c
    where s: "self' = self\<lparr>legend_item_margin_top := c\<rparr>"
      and c: "reads_back env (Legend_item_margin_top_setter env) legend_item_margin_top_update c"
    by blast
  from assms(2) c show ?thesis unfolding Legend_fields_read_back_def s by simp
qed

lemma Legend_item_style_keeps:
  assumes "Legend_item_style_setter self value = Inr self'" and "Legend_fields_read_back env self"
  shows "Legend_fields_read_back env self'"
proof -
  from Legend_item_style_frame [OF assms(1), of env] obtain c
    where s: "self' = self\<lparr>legend_item_style := c\<rparr>"
      and c: "reads_back env Legend_item_style_setter legend_item_style_update c"
    by blast
  from assms(2) c show ?thesis unfolding Legend_fields_read_back_def s by simp
qed

lemma Legend_item_width_keeps:
  assumes "Legend_item_width_setter env self value = Inr self'" and "Legend_fields_read_back env self"
  shows "Legend_fields_read_back env self'"
proof -
  from Legend_item_width_frame [OF assms(1)] obtain c
    where s: "self' = self\<lparr>legend_item_width := c\<rparr>"
      and c: "reads_back env (Legend_item_width_setter env) legend_item_width_update c"
    by blast
  from assms(2) c show ?thesis unfolding Legend_fields_read_back_def s by simp
qed

lemma Legend_label_format_keeps:
  assumes "Legend_label_format_setter self value = Inr self'" and "Legend_fields_read_back env self"
  shows "Legend_fields_read_back env self'"
proof -
  from Legend_label_format_frame [OF assms(1), of env] obtain c
    where s: "self' = self\<lparr>legend_label_format := c\<rparr>"
      and c: "reads_back env Legend_label_format_setter legend_label_format_update c"
    by blast
  from assms(2) c show ?thesis unfolding Legend_fields_read_back_def s by simp
qed

lemma Legend_label_formatter_keeps:
  assumes "Legend_label_formatter_setter env self value = Inr self'" and "Legend_fields_read_back env self"
  shows "Legend_fields_read_back env self'"
proof -
  from Legend_label_formatter_frame [OF assms(1)] obtain c where s: "self' = self\<lparr>legend_label_formatter := c\<rparr>"
    by blast
  from assms(2) show ?thesis unfolding Legend_fields_read_back_def s by simp
qed

lemma Legend_layout_keeps:
  assumes "Legend_layout_setter self value = Inr self'" and "Legend_fields_read_back env self"
  shows "Legend_fields_read_back env self'"
proof -
  from Legend_layout_frame [OF assms(1), of env] obtain c
    where s: "self' = self\<lparr>legend_layout := c\<rparr>"
      and c: "reads_back env Legend_layout_setter legend_layout_update c"
    by blast
  from assms(2) c show ?thesis unfolding Legend_fields_read_back_def s by simp
qed

lemma Legend_margin_keeps:
  assumes "Legend_margin_setter env self value = Inr self'" and "Legend_fields_read_back env self"
  shows "Legend_fields_read_back env self'"
proof -
  from Legend_margin_frame [OF assms(1)] obtain c
    where s: "self' = self\<lparr>legend_margin := c\<rparr>"
      and c: "reads_back env (Legend_margin_setter env) legend_margin_update c"
    by blast
  from assms(2) c show ?thesis unfolding Legend_fields_read_back_def s by simp
qed

lemma Legend_max_height_keeps:
  assumes "Legend_max_height_setter env self value = Inr self'" and "Legend_fields_read_back env self"
  shows "Legend_fields_read_back env self'"
proof -
  from Legend_max_height_frame [OF assms(1)] obtain c
    where s: "self' = self\<lparr>legend_max_height := c\<rparr>"
      and c: "reads_back env (Legend_max_height_setter env) legend_max_height_update c"
    by blast
  from assms(2) c show ?thesis unfolding Legend_fields_read_back_def s by simp
qed

lemma Legend_navigation_keeps:
  assumes "Legend_navigation_setter env self value = Inr self'" and "Legend_fields_read_back env self"
  shows "Legend_fields_read_back env self'"
proof -
  from Legend_navigation_frame [OF assms(1)] obtain c where s: "self' = self\<lparr>legend_navigation := c\<rparr>"
    by blast
  from assms(2) show ?thesis unfolding Legend_fields_read_back_def s by simp
qed

lemma Legend_padding_keeps:
  assumes "Legend_padding_setter env self value = Inr self'" and "Legend_fields_read_back env self"
  shows "Legend_fields_read_back env self'"
proof -
  from Legend_padding_frame [OF assms(1)] obtain c
    where s: "self' = self\<lparr>legend_padding := c\<rparr>"
      and c: "reads_back env (Legend_padding_setter env) legend_padding_update c"
    by blast
  from assms(2) c show ?thesis unfolding Legend_fields_read_back_def s by simp
qed

lemma Legend_reversed_keeps:
  assumes "Legend_reversed_setter self value = Inr self'" and "Legend_fields_read_back env self"
  shows "Legend_fields_read_back env self'"
proof -
  from Legend_reversed_frame [OF assms(1), of env] obtain c
    where s: "self' = self\<lparr>legend_reversed := c\<rparr>"
      and c: "reads_back env Legend_reversed_setter legend_reversed_update c"
    by blast
  from assms(2) c show ?thesis unfolding Legend_fields_read_back_def s by simp
qed

lemma Legend_rtl_keeps:
  assumes "Legend_rtl_setter self value = Inr self'" and "Legend_fields_read_back env self"
  shows "Legend_fields_read_back env self'"
proof -
  from Legend_rtl_frame [OF assms(1), of env] obtain c
    where s: "self' = self\<lparr>legend_rtl := c\<rparr>"
      and c: "reads_back env Legend_rtl_setter legend_rtl_update c"
    by blast
  from assms(2) c show ?thesis unfolding Legend_fields_read_back_def s by simp
qed

lemma Legend_shadow_keeps:
  assumes "Legend_shadow_setter env self value = Inr self'" and "Legend_fields_read_back env self"
  shows "Legend_fields_read_back env self'"
proof -
  from Legend_shadow_frame [OF assms(1)] obtain c where s: "self' = self\<lparr>legend_shadow := c\<rparr>"
    by blast
  from assms(2) show ?thesis unfolding Legend_fields_read_back_def s by simp
qed

lemma Legend_square_symbol_keeps:
  assumes "Legend_square_symbol_setter self value = Inr self'" and "Legend_fields_read_back env self"
  shows "Legend_fields_read_back env self'"
proof -
  from Legend_square_symbol_frame [OF assms(1), of env] obtain c
    where s: "self' = self\<lparr>legend_square_symbol := c\<rparr>"
      and c: "reads_back env Legend_square_symbol_setter legend_square_symbol_update c"
    by blast
  from assms(2) c show ?thesis unfolding Legend_fields_read_back_def s by simp
qed

lemma Legend_symbol_height_keeps:
  assumes "Legend_symbol_height_setter env self value = Inr self'" and "Legend_fields_read_back env self"
  shows "Legend_fields_read_back env self'"
proof -
  from Legend_symbol_height_frame [OF assms(1)] obtain c
    where s: "self' = self\<lparr>legend_symbol_height := c\<rparr>"
      and c: "reads_back env (Legend_symbol_height_setter env) legend_symbol_height_update c"
    by blast
  from assms(2) c show ?thesis unfolding Legend_fields_read_back_def s by simp
qed

lemma Legend_symbol_padding_keeps:
  assumes "Legend_symbol_padding_setter env self value = Inr self'" and "Legend_fields_read_back env self"
  shows "Legend_fields_read_back env self'"
proof -
  from Legend_symbol_padding_frame [OF assms(1)] obtain c
    where s: "self' = self\<lparr>legend_symbol_padding := c\<rparr>"
      and c: "reads_back env (Legend_symbol_padding_setter env) legend_symbol_padding_update c"
    by blast
  from assms(2) c show ?thesis unfolding Legend_fields_read_back_def s by simp
qed

lemma Legend_symbol_radius_keeps:
  assumes "Legend_symbol_radius_setter env self value = Inr self'" and "Legend_fields_read_back env self"
  shows "Legend_fields_read_back env self'"
proof -
  from Legend_symbol_radius_frame [OF assms(1)] obtain c
    where s: "self' = self\<lparr>legend_symbol_radius := c\<rparr>"
      and c: "reads_back env (Legend_symbol_radius_setter env) legend_symbol_radius_update c"
    by blast
  from assms(2) c show ?thesis unfolding Legend_fields_read_back_def s by simp
qed

lemma Legend_symbol_width_keeps:
  assumes "Legend_symbol_width_setter env self value = Inr self'" and "Legend_fields_read_back env self"
  shows "Legend_fields_read_back env self'"
proof -
  from Legend_symbol_width_frame [OF assms(1)] obtain c
    where s: "self' = self\<lparr>legend_symbol_width := c\<rparr>"
      and c: "reads_back env (Legend_symbol_width_setter env) legend_symbol_width_update c"
    by blast
  from assms(2) c show ?thesis unfolding Legend_fields_read_back_def s by simp
qed

lemma Legend_title_keeps:
  assumes "Legend_title_setter env self value = Inr self'" and "Legend_fields_read_back env self"
  shows "Legend_fields_read_back env self'"
proof -
  from Legend_title_frame [OF assms(1)] obtain c where s: "self' = self\<lparr>legend_title := c\<rparr>"
    by blast
  from assms(2) show ?thesis unfolding Legend_fields_read_back_def s by simp
qed

lemma Legend_use_html_keeps:
  assumes "Legend_use_html_setter self value = Inr self'" and "Legend_fields_read_back env self"
  shows "Legend_fields_read_back env self'"
proof -
  from Legend_use_html_frame [OF assms(1), of env] obtain c
    where s: "self' = self\<lparr>legend_use_html := c\<rparr>"
      and c: "reads_back env Legend_use_html_setter legend_use_html_update c"
    by blast
  from assms(2) c show ?thesis unfolding Legend_fields_read_back_def s by simp
qed

lemma Legend_vertical_align_keeps:
  assumes "Legend_vertical_align_setter self value = Inr self'" and "Legend_fields_read_back env self"
  shows "Legend_fields_read_back env self'"
proof -
  from Legend_vertical_align_frame [OF assms(1), of env] obtain c
    where s: "self' = self\<lparr>legend_vertical_align := c\<rparr>"
      and c: "reads_back env Legend_vertical_align_setter legend_vertical_align_update c"
    by blast
  from assms(2) c show ?thesis unfolding Legend_fields_read_back_def s by simp
qed

lemma Legend_width_keeps:
  assumes "Legend_width_setter env self value = Inr self'" and "Legend_fields_read_back env self"
  shows "Legend_fields_read_back env self'"
proof -
  from Legend_width_frame [OF assms(1)] obtain c
    where s: "self' = self\<lparr>legend_width := c\<rparr>"
      and c: "reads_back env (Legend_width_setter env) legend_width_update c"
    by blast
  from assms(2) c show ?thesis unfolding Legend_fields_read_back_def s by simp
qed

lemma Legend_x_keeps:
  assumes "Legend_x_setter env self value = Inr self'" and "Legend_fields_read_back env self"
  shows "Legend_fields_read_back env self'"
  using Legend_x_frame [OF assms(1)] assms(2) by simp

lemma Legend_y_keeps:
  assumes "Legend_y_setter env self value = Inr self'" and "Legend_fields_read_back env self"
  shows "Legend_fields_read_back env self'"
  using Legend_y_frame [OF assms(1)] assms(2) by simp

lemmas Legend_keeps =
  Legend_accessibility_keeps
  Legend_align_keeps
  Legend_align_columns_keeps
  Legend_background_color_keeps
  Legend_border_color_keeps
  Legend_border_width_keeps
  Legend_border_radius_keeps
  Legend_bubble_legend_keeps
  Legend_class_name_keeps
  Legend_enabled_keeps
  Legend_floating_keeps
  Legend_item_checkbox_style_keeps
  Legend_item_distance_keeps
  Legend_item_hidden_style_keeps
  Legend_item_hover_style_keeps
  Legend_item_margin_bottom_keeps
  Legend_item_margin_top_keeps
  Legend_item_style_keeps
  Legend_item_width_keeps
  Legend_label_format_keeps
  Legend_label_formatter_keeps
  Legend_layout_keeps
  Legend_margin_keeps
  Legend_max_height_keeps
  Legend_navigation_keeps
  Legend_padding_keeps
  Legend_reversed_keeps
  Legend_rtl_keeps
  Legend_shadow_keeps
  Legend_square_symbol_keeps
  Legend_symbol_height_keeps
  Legend_symbol_padding_keeps
  Legend_symbol_radius_keeps
  Legend_symbol_width_keeps
  Legend_title_keeps
  Legend_use_html_keeps
  Legend_vertical_align_keeps
  Legend_width_keeps
  Legend_x_keeps
  Legend_y_keeps

lemma Legend_new_read_back: "Legend_fields_read_back env Legend_new"
  by (simp add: Legend_fields_read_back_def reads_back_def serialized_def Legend_new_def
      Legend_setter_defs assign_def validators_string_def)

lemma Legend_init_read_back:
  assumes "Legend_init env kwargs = Inr l"
  shows "Legend_fields_read_back env l"
  by (rule run_setters_invariant_all [where P = "Legend_fields_read_back env",
        OF assms [unfolded Legend_init_def] Legend_new_read_back])
    (simp only: list.pred_inject, intro conjI allI impI TrueI, (erule Legend_keeps, assumption)+)

lemma Legend_from_dict_unfold:
  "Legend_from_dict env as_dict =
     run_setters Legend_new
       [(\<lambda>self. Legend_accessibility_setter env self (pop as_dict ''accessibility'' PNone)),
        (\<lambda>self. Legend_align_setter self (pop as_dict ''align'' PNone)),
        (\<lambda>self. Legend_align_columns_setter self (pop as_dict ''alignColumns'' PNone)),
        (\<lambda>self. Legend_background_color_setter env self (pop as_dict ''backgroundColor'' PNone)),
        (\<lambda>self. Legend_border_color_setter env self (pop as_dict ''borderColor'' PNone)),
        (\<lambda>self. Legend_border_width_setter env self (pop as_dict ''borderWidth'' PNone)),
        (\<lambda>self. Legend_border_radius_setter env self (pop as_dict ''borderRadius'' PNone)),
        (\<lambda>self. Legend_bubble_legend_setter env self (pop as_dict ''bubbleLegend'' PNone)),
        (\<lambda>self. Legend_class_name_setter self (pop as_dict ''className'' PNone)),
        (\<lambda>self. Legend_enabled_setter self (pop as_dict ''enabled'' PNone)),
        (\<lambda>self. Legend_floating_setter self (pop as_dict ''floating'' PNone)),
        (\<lambda>self. Legend_item_checkbox_style_setter self (pop as_dict ''itemCheckboxStyle'' PNone)),
        (\<lambda>self. Legend_item_distance_setter env self (pop as_dict ''itemDistance'' PNone)),
        (\<lambda>self. Legend_item_hidden_style_setter self (pop as_dict ''itemHiddenStyle'' PNone)),
        (\<lambda>self. Legend_item_hover_style_setter self (pop as_dict ''itemHoverStyle'' PNone)),
        (\<lambda>self. Legend_item_margin_bottom_setter env self (pop as_dict ''itemMarginBottom'' PNone)),
        (\<lambda>self. Legend_item_margin_top_setter env self (pop as_dict ''itemMarginTop'' PNone)),
        (\<lambda>self. Legend_item_style_setter self (pop as_dict ''itemStyle'' PNone)),
        (\<lambda>self. Legend_item_width_setter env self (pop as_dict ''itemWidth'' PNone)),
        (\<lambda>self. Legend_label_format_setter self (pop as_dict ''labelFormat'' PNone)),
        (\<lambda>self. Legend_label_formatter_setter env self (pop as_dict ''labelFormatter'' PNone)),
        (\<lambda>self. Legend_layout_setter self (pop as_dict ''layout'' PNone)),
        (\<lambda>self. Legend_margin_setter env self (pop as_dict ''margin'' PNone)),
        (\<lambda>self. Legend_max_height_setter env self (pop as_dict ''maxHeight'' PNone)),
        (\<lambda>self. Legend_navigation_setter env self (pop as_dict ''navigation'' PNone)),
        (\<lambda>self. Legend_padding_setter env self (pop as_dict ''padding'' PNone)),
        (\<lambda>self. Legend_reversed_setter self (pop as_dict ''reversed'' PNone)),
        (\<lambda>self. Legend_rtl_setter self (pop as_dict ''rtl'' PNone)),
        (\<lambda>self. Legend_shadow_setter env self (pop as_dict ''shadow'' PNone)),
        (\<lambda>self. Legend_square_symbol_setter self (pop as_dict ''squareSymbol'' PNone)),
        (\<lambda>self. Legend_symbol_height_setter env self (pop as_dict ''symbolHeight'' PNone)),
        (\<lambda>self. Legend_symbol_padding_setter env self (pop as_dict ''symbolPadding'' PNone)),
        (\<lambda>self. Legend_symbol_radius_setter env self (pop as_dict ''symbolRadius'' PNone)),
        (\<lambda>self. Legend_symbol_width_setter env self (pop as_dict ''symbolWidth'' PNone)),
        (\<lambda>self. Legend_title_setter env self (pop as_dict ''title'' PNone)),
        (\<lambda>self. Legend_use_html_setter self (pop as_dict ''useHTML'' PNone)),
        (\<lambda>self. Legend_vertical_align_setter self (pop as_dict ''verticalAlign'' PNone)),
        (\<lambda>self. Legend_width_setter env self (pop as_dict ''width'' PNone)),
        (\<lambda>self. Legend_x_setter env self (pop as_dict ''x'' PNone)),
        (\<lambda>self. Legend_y_setter env self (pop as_dict ''y'' PNone))]"
  by (simp add: Legend_from_dict_def Legend_init_def pop_Cons)

subsection \<open>Legend.x and Legend.y\<close>

text \<open>
  Claim C5. The claim: a \<open>Legend\<close> built from a mapping with a numeric \<open>x\<close> (or \<open>y\<close>)
  has that number as its \<open>x\<close> (or \<open>y\<close>). The code does not store it: the two setters
  validate the value and drop it, so \<open>x\<close> and \<open>y\<close> of every \<open>Legend\<close> that
  \<open>from_dict\<close> returns are \<open>None\<close>.
\<close>

theorem legend_x_y_never_stored:
  assumes "Legend_from_dict env as_dict = Inr l"
  shows "legend_x l = PNone \<and> legend_y l = PNone"
  using Legend_init_read_back [OF assms [unfolded Legend_from_dict_def]]
  by (simp add: Legend_fields_read_back_def)

lemma Legend_from_dict_xy:
  "Legend_from_dict sample_env [(''x'', PInt 5), (''y'', PInt 7)] = Inr Legend_new"
  by (simp add: Legend_from_dict_unfold Legend_setter_defs assign_def pop_Nil pop_Cons
      sample_env_def class_sensitive_def validate_types_def resolve_color_def validators_string_def
      check_bounds_def Legend_new_def)

theorem legend_x_y_never_stored_witness:
  "Legend_from_dict sample_env [(''x'', PInt 5), (''y'', PInt 7)] = Inr Legend_new
   \<and> legend_x Legend_new = PNone \<and> legend_y Legend_new = PNone"
  using legend_x_y_never_stored [of sample_env "[(''x'', PInt 5), (''y'', PInt 7)]" Legend_new]
    Legend_from_dict_xy
  by simp

end
